theory Spec2Isabelle
  imports Main "HOL-Library.AList" "HOL-Library.Sublist"
begin

section \<open>Python values, dictionaries and strings\<close>

text \<open>
  The pipeline and the web runner exchange untyped dictionaries.  A dictionary is an
  association list in insertion order; \<open>d[k] = v\<close> overwrites in place or appends,
  which is what \<^const>\<open>AList.update\<close> does.
\<close>

datatype pyval =
    PNone
  | PBool bool
  | PInt int
  | PStr string
  | PList "pyval list"
  | PDict "(string \<times> pyval) list"

type_synonym pydict = "(string \<times> pyval) list"

text \<open>
  Every handler of these sources is \<open>except Exception\<close>: it catches the instances of
  \<open>Exception\<close> and lets any other \<open>BaseException\<close> (\<open>KeyboardInterrupt\<close>, \<open>SystemExit\<close>,
  \<open>GeneratorExit\<close>) pass.  An exception is therefore its class, as far as the handlers tell
  classes apart, together with the string \<open>str(e)\<close>: \<open>Exception e\<close> for an instance of
  \<open>Exception\<close>, \<open>BaseException e\<close> for one that is not.  A computation that may raise
  returns \<open>exn + 'a\<close> with \<open>Inl\<close> for the raise.
\<close>

datatype exn = Exception string | BaseException string

fun truthy :: "pyval \<Rightarrow> bool" where
  "truthy PNone = False"
| "truthy (PBool b) = b"
| "truthy (PInt i) = (i \<noteq> 0)"
| "truthy (PStr s) = (s \<noteq> [])"
| "truthy (PList xs) = (xs \<noteq> [])"
| "truthy (PDict d) = (d \<noteq> [])"

definition dict_get :: "pydict \<Rightarrow> string \<Rightarrow> pyval \<Rightarrow> pyval" where
  \<comment> \<open>\<open>d.get(k, default)\<close>\<close>
  "dict_get d k dflt = (case map_of d k of None \<Rightarrow> dflt | Some v \<Rightarrow> v)"

definition dict_item :: "pydict \<Rightarrow> string \<Rightarrow> string + pyval" where
  \<comment> \<open>\<open>d[k]\<close>: a missing key raises KeyError (\<open>Inl\<close>), whose \<open>str\<close> is the quoted key\<close>
  "dict_item d k =
     (case map_of d k of None \<Rightarrow> Inl ([CHR 0x27] @ k @ [CHR 0x27]) | Some v \<Rightarrow> Inr v)"

definition dict_set :: "pydict \<Rightarrow> string \<Rightarrow> pyval \<Rightarrow> pydict" where
  \<comment> \<open>\<open>d[k] = v\<close>\<close>
  "dict_set d k v = AList.update k v d"

fun dict_update :: "pydict \<Rightarrow> pydict \<Rightarrow> pydict" where
  \<comment> \<open>\<open>d.update({...})\<close>\<close>
  "dict_update d [] = d"
| "dict_update d ((k, v) # kvs) = dict_update (dict_set d k v) kvs"

definition opt_or :: "string option \<Rightarrow> string \<Rightarrow> string" where
  \<comment> \<open>\<open>x or default\<close> for an optional string: None and the empty string are falsy\<close>
  "opt_or x dflt = (case x of None \<Rightarrow> dflt | Some s \<Rightarrow> if s = [] then dflt else s)"

definition path_join :: "string \<Rightarrow> string \<Rightarrow> string" where
  \<comment> \<open>\<open>Path / name\<close>\<close>
  "path_join d n = d @ ''/'' @ n"

definition path_name :: "string \<Rightarrow> string" where
  \<comment> \<open>\<open>Path.name\<close>: the last component\<close>
  "path_name p = rev (takeWhile (\<lambda>c. c \<noteq> CHR ''/'') (rev p))"

fun contains :: "string \<Rightarrow> string \<Rightarrow> bool" where
  \<comment> \<open>\<open>pat in s\<close>\<close>
  "contains pat [] = (pat = [])"
| "contains pat (c # cs) = (prefix pat (c # cs) \<or> contains pat cs)"

definition lower_char :: "char \<Rightarrow> char" where
  "lower_char c =
     (case map_of (zip ''ABCDEFGHIJKLMNOPQRSTUVWXYZ'' ''abcdefghijklmnopqrstuvwxyz'') c of
        None \<Rightarrow> c | Some l \<Rightarrow> l)"

definition lower :: "string \<Rightarrow> string" where
  \<comment> \<open>\<open>str.lower()\<close> on ASCII text\<close>
  "lower s = map lower_char s"

definition digit_char :: "nat \<Rightarrow> char" where
  "digit_char d = ''0123456789'' ! d"

function str_nat :: "nat \<Rightarrow> string" where
  \<comment> \<open>\<open>str(n)\<close> for a non-negative integer\<close>
  "str_nat n = (if n < 10 then [digit_char n] else str_nat (n div 10) @ [digit_char (n mod 10)])"
  by pat_completeness auto
termination
  by (relation "measure id") auto

declare str_nat.simps [simp del]

section \<open>Effects\<close>

text \<open>
  Every function below returns, next to its value, the list of effects it performed on
  the file system, the object store and the caller's progress callback, in program order.
\<close>

datatype event =
    Downloaded string string          \<comment> \<open>url, local audio path: \<open>downloader.download\<close> returned\<close>
  | MetadataWritten string            \<comment> \<open>the sidecar was written\<close>
  | UploadReturned string string bool \<comment> \<open>local path, remote key, \<open>success\<close> of \<open>upload_file\<close>\<close>
  | Unlinked string                   \<comment> \<open>\<open>Path.unlink\<close> returned\<close>
  | UnlinkFailed string               \<comment> \<open>\<open>Path.unlink\<close> raised\<close>
  | CallbackInvoked string pyval nat nat \<comment> \<open>\<open>progress_callback(url, success, total, index)\<close>\<close>
  | JsonWritten string pydict         \<comment> \<open>\<open>json.dump\<close> of a summary or results document\<close>
  | FileWritten string                \<comment> \<open>the plain-text URL listing was opened for writing\<close>

section \<open>gcp\_uploader.py\<close>

record GCPUploader =
  project_id :: string
  bucket_name :: string
  credentials_path :: "string option"
  GCP_AVAILABLE :: bool
  client :: "string option"
  bucket :: "string option"

definition is_available :: "GCPUploader \<Rightarrow> bool" where
  "is_available up = (GCP_AVAILABLE up \<and> client up \<noteq> None \<and> bucket up \<noteq> None)"

text \<open>What the file system and the bucket answer during one call of \<open>upload_file\<close>.\<close>

record upload_env =
  local_exists :: bool             \<comment> \<open>\<open>local_path.exists()\<close>\<close>
  blob_upload :: "exn option"      \<comment> \<open>\<open>blob.upload_from_filename\<close>: \<open>Some e\<close> raises \<open>e\<close>\<close>
  local_size :: "exn + nat"        \<comment> \<open>\<open>local_path.stat().st_size\<close>\<close>

definition upload_failed :: "string \<Rightarrow> string \<Rightarrow> string \<Rightarrow> pydict" where
  "upload_failed e local_path remote_path =
     [(''success'', PBool False), (''error'', PStr e),
      (''local_path'', PStr local_path), (''remote_path'', PStr remote_path)]"

definition upload_raised :: "exn \<Rightarrow> string \<Rightarrow> string \<Rightarrow> exn + pydict" where
  \<comment> \<open>the \<open>except Exception as e\<close> of \<open>upload_file\<close> (lines 143--150)\<close>
  "upload_raised x local_path remote_path =
     (case x of
        Exception e \<Rightarrow> Inr (upload_failed e local_path remote_path)
      | BaseException b \<Rightarrow> Inl (BaseException b))"

definition upload_file ::
  "GCPUploader \<Rightarrow> upload_env \<Rightarrow> string \<Rightarrow> string \<Rightarrow> exn + pydict" where
  "upload_file up ue local_path remote_path =
     (if \<not> is_available up then
        Inr [(''success'', PBool False), (''error'', PStr ''GCP uploader not available'')]
      else if \<not> local_exists ue then
        Inr [(''success'', PBool False),
             (''error'', PStr (''Local file not found: '' @ local_path))]
      else
        (case blob_upload ue of
           Some x \<Rightarrow> upload_raised x local_path remote_path
         | None \<Rightarrow>
             (case local_size ue of
                Inl x \<Rightarrow> upload_raised x local_path remote_path
              | Inr n \<Rightarrow>
                  Inr [(''success'', PBool True),
                       (''local_path'', PStr local_path),
                       (''remote_path'', PStr remote_path),
                       (''bucket'', PStr (bucket_name up)),
                       (''size'', PInt (int n)),
                       (''public_url'',
                          PStr (''gs://'' @ bucket_name up @ ''/'' @ remote_path))])))"

section \<open>simple\_pipeline.py: the per-video processor\<close>

text \<open>
  \<open>youtube_downloader.py\<close> is not part of the sources read here, so what
  \<open>get_video_info\<close> and \<open>download\<close> return is a parameter of the model, as are the
  answers of the file system.  One \<open>video_env\<close> holds these answers for one call of
  \<open>download_single_video\<close>.
\<close>

record video_info =
  info_title :: "string option"
  info_id :: "string option"
  info_duration :: "int option"

datatype unlink_outcome =
    NotThere               \<comment> \<open>\<open>exists()\<close> is false: nothing to delete\<close>
  | Removed                \<comment> \<open>\<open>unlink()\<close> returned\<close>
  | UnlinkRaises exn       \<comment> \<open>\<open>unlink()\<close> raised\<close>

record video_env =
  video_info_outcome :: "exn + video_info"      \<comment> \<open>\<open>downloader.get_video_info(url)\<close>\<close>
  download_outcome :: "exn + string"            \<comment> \<open>\<open>downloader.download(url, name)\<close>: the audio path\<close>
  audio_size_outcome :: "exn + nat option"      \<comment> \<open>\<open>None\<close>: the audio path does not exist\<close>
  metadata_write_outcome :: "exn option"        \<comment> \<open>\<open>open\<close> and \<open>json.dump\<close> of the sidecar\<close>
  audio_upload :: upload_env
  metadata_upload :: upload_env
  audio_unlink :: unlink_outcome
  metadata_unlink :: unlink_outcome

record SimpleDownloadPipeline =
  output_base_dir :: string
  gcp_uploader :: GCPUploader
  current_session :: "string option"
  session_dir :: "string option"

definition no_active_session :: string where
  "no_active_session = ''No active session. Call create_session() first.''"

definition create_session ::
  "SimpleDownloadPipeline \<Rightarrow> string option \<Rightarrow> string \<Rightarrow> exn option
     \<Rightarrow> SimpleDownloadPipeline \<times> exn option" where
  \<comment> \<open>\<open>timestamp\<close> is the clock's \<open>strftime\<close>; \<open>mkdir\<close> is \<open>Some e\<close> when a
      \<open>mkdir\<close> raises \<open>e\<close>.  The two attributes are assigned before the first \<open>mkdir\<close>.\<close>
  "create_session self session_name timestamp mkdir =
     (let name = (case session_name of
                    None \<Rightarrow> ''download_session_'' @ timestamp
                  | Some n \<Rightarrow> n)
      in (self\<lparr>current_session := Some name,
               session_dir := Some (path_join (output_base_dir self) name)\<rparr>, mkdir))"

definition video_failure :: "string \<Rightarrow> string \<Rightarrow> pydict" where
  "video_failure the_url e =
     [(''success'', PBool False), (''url'', PStr the_url), (''error'', PStr e)]"

definition metadata_file_path :: "string \<Rightarrow> string \<Rightarrow> string" where
  \<comment> \<open>\<open>self.session_dir / 'metadata' / f"{video_id}_metadata.json"\<close>\<close>
  "metadata_file_path sd video_id =
     path_join (path_join sd ''metadata'') (video_id @ ''_metadata.json'')"

definition audio_remote_path :: "string \<Rightarrow> string \<Rightarrow> string" where
  "audio_remote_path session_name audio_path =
     ''youtube_downloads/'' @ session_name @ ''/downloads/'' @ path_name audio_path"

definition metadata_remote_path :: "string \<Rightarrow> string \<Rightarrow> string" where
  "metadata_remote_path session_name metadata_file =
     ''youtube_downloads/'' @ session_name @ ''/metadata/'' @ path_name metadata_file"

definition initial_result ::
  "string \<Rightarrow> string \<Rightarrow> string \<Rightarrow> string \<Rightarrow> string \<Rightarrow> nat \<Rightarrow> int \<Rightarrow> pydict" where
  \<comment> \<open>the dictionary literal of lines 123--134\<close>
  "initial_result video_id video_title the_url audio_path metadata_file file_size duration =
     [(''success'', PBool True),
      (''video_id'', PStr video_id),
      (''title'', PStr video_title),
      (''url'', PStr the_url),
      (''audio_path'', PStr audio_path),
      (''metadata_path'', PStr metadata_file),
      (''file_size'', PInt (int file_size)),
      (''duration'', PInt duration),
      (''uploaded_to_gcp'', PBool False),
      (''local_files_cleaned'', PBool False)]"

definition upload_success :: "pydict \<Rightarrow> bool" where
  \<comment> \<open>\<open>upload_result.get('success', False)\<close>\<close>
  "upload_success r = truthy (dict_get r ''success'' (PBool False))"

definition cleanup_raised :: "exn \<Rightarrow> pydict \<Rightarrow> exn + pydict" where
  \<comment> \<open>the \<open>except Exception as cleanup_error\<close> of lines 182--183: the result is left as
      it is, with \<open>local_files_cleaned\<close> false\<close>
  "cleanup_raised x result =
     (case x of Exception e \<Rightarrow> Inr result | BaseException b \<Rightarrow> Inl (BaseException b))"

definition cleanup_local_files ::
  "video_env \<Rightarrow> string \<Rightarrow> string \<Rightarrow> pydict \<Rightarrow> (exn + pydict) \<times> event list" where
  \<comment> \<open>the inner \<open>try\<close> of lines 171--183\<close>
  "cleanup_local_files ve audio_path metadata_file result =
     (case audio_unlink ve of
        UnlinkRaises x \<Rightarrow> (cleanup_raised x result, [UnlinkFailed audio_path])
      | a \<Rightarrow>
          (let ev = (case a of Removed \<Rightarrow> [Unlinked audio_path] | _ \<Rightarrow> []) in
           case metadata_unlink ve of
             UnlinkRaises x \<Rightarrow> (cleanup_raised x result, ev @ [UnlinkFailed metadata_file])
           | NotThere \<Rightarrow> (Inr (dict_set result ''local_files_cleaned'' (PBool True)), ev)
           | Removed \<Rightarrow>
               (Inr (dict_set result ''local_files_cleaned'' (PBool True)),
                ev @ [Unlinked metadata_file])))"

definition immediate_upload_step ::
  "SimpleDownloadPipeline \<Rightarrow> video_env \<Rightarrow> string \<Rightarrow> string \<Rightarrow> pydict
     \<Rightarrow> (exn + pydict) \<times> event list" where
  \<comment> \<open>the body of \<open>if immediate_upload and self.gcp_uploader.is_available()\<close>; \<open>Inl\<close> when
      an upload or the cleanup raises\<close>
  "immediate_upload_step self ve audio_path metadata_file result =
     (let session_name = opt_or (current_session self) ''unknown_session'';
          a_remote = audio_remote_path session_name audio_path
      in case upload_file (gcp_uploader self) (audio_upload ve) audio_path a_remote of
           Inl x \<Rightarrow> (Inl x, [])
         | Inr upload_result \<Rightarrow>
            (let ev1 = [UploadReturned audio_path a_remote (upload_success upload_result)]
             in if upload_success upload_result then
                  (let m_remote = metadata_remote_path session_name metadata_file
                   in case upload_file (gcp_uploader self) (metadata_upload ve)
                             metadata_file m_remote of
                        Inl x \<Rightarrow> (Inl x, ev1)
                      | Inr metadata_upload_result \<Rightarrow>
                         (let ev2 = ev1 @ [UploadReturned metadata_file m_remote
                                             (upload_success metadata_upload_result)]
                          in if upload_success metadata_upload_result then
                               (let result1 = dict_set result ''uploaded_to_gcp'' (PBool True);
                                    result2 = dict_set result1 ''gcp_audio_url''
                                                (dict_get upload_result ''public_url'' PNone);
                                    result3 = dict_set result2 ''gcp_metadata_url''
                                                (dict_get metadata_upload_result
                                                   ''public_url'' PNone);
                                    (cleaned, ev3) =
                                       cleanup_local_files ve audio_path metadata_file result3
                                in (cleaned, ev2 @ ev3))
                             else (Inr result, ev2)))
                else (Inr result, ev1)))"

definition video_raised :: "string \<Rightarrow> exn \<Rightarrow> exn + pydict" where
  \<comment> \<open>the \<open>except Exception as e\<close> of \<open>download_single_video\<close> (lines 191--197)\<close>
  "video_raised the_url x =
     (case x of
        Exception e \<Rightarrow> Inr (video_failure the_url e)
      | BaseException b \<Rightarrow> Inl (BaseException b))"

definition download_single_video ::
  "SimpleDownloadPipeline \<Rightarrow> video_env \<Rightarrow> string \<Rightarrow> string option \<Rightarrow> bool
     \<Rightarrow> (exn + pydict) \<times> event list" where
  "download_single_video self ve the_url custom_filename immediate_upload =
     (case session_dir self of
        None \<Rightarrow> (Inl (Exception no_active_session), [])
      | Some sd \<Rightarrow>
         (case video_info_outcome ve of
            Inl x \<Rightarrow> (video_raised the_url x, [])
          | Inr video_info \<Rightarrow>
             (let video_title = (case info_title video_info of None \<Rightarrow> ''Unknown'' | Some t \<Rightarrow> t);
                  video_id = (case info_id video_info of None \<Rightarrow> ''unknown'' | Some i \<Rightarrow> i);
                  duration = (case info_duration video_info of None \<Rightarrow> 0 | Some d \<Rightarrow> d)
              in case download_outcome ve of
                   Inl x \<Rightarrow> (video_raised the_url x, [])
                 | Inr audio_path \<Rightarrow>
                    (case audio_size_outcome ve of
                       Inl x \<Rightarrow> (video_raised the_url x, [Downloaded the_url audio_path])
                     | Inr size_opt \<Rightarrow>
                        (let file_size = (case size_opt of None \<Rightarrow> 0 | Some n \<Rightarrow> n);
                             metadata_file = metadata_file_path sd video_id
                         in case metadata_write_outcome ve of
                              Some x \<Rightarrow>
                                (video_raised the_url x, [Downloaded the_url audio_path])
                            | None \<Rightarrow>
                               (let ev = [Downloaded the_url audio_path,
                                          MetadataWritten metadata_file];
                                    result = initial_result video_id video_title the_url
                                               audio_path metadata_file file_size duration
                                in if immediate_upload \<and> is_available (gcp_uploader self) then
                                     (let (uploaded, ev') =
                                            immediate_upload_step self ve audio_path
                                              metadata_file result
                                      in case uploaded of
                                           Inl x \<Rightarrow> (video_raised the_url x, ev @ ev')
                                         | Inr result' \<Rightarrow> (Inr result', ev @ ev'))
                                   else (Inr result, ev)))))))"


section \<open>simple\_pipeline.py: the channel processor\<close>

text \<open>
  \<open>youtube_scanner.py\<close> is not part of the sources either: what \<open>scan_channel\<close> and
  \<open>get_video_urls\<close> return is given by the environment, together with the answers for
  each video (by its position in the capped list) and for the two summary files.
  A progress callback is any caller-supplied function: it may change the caller's state
  and it may raise (\<open>Some e\<close>).
\<close>

record channel_env =
  scan_channel_outcome :: "exn + string option"  \<comment> \<open>raises, returns None, or a list path\<close>
  get_video_urls_outcome :: "exn + string list"
  video_envs :: "nat \<Rightarrow> video_env"
  summary_write_outcome :: "exn option"
  video_list_write_outcome :: "exn option"

type_synonym 's progress_callback =
  "string \<Rightarrow> pyval \<Rightarrow> nat \<Rightarrow> nat \<Rightarrow> 's \<Rightarrow> 's \<times> exn option"

definition invoke_callback ::
  "'s progress_callback option \<Rightarrow> string \<Rightarrow> pyval \<Rightarrow> nat \<Rightarrow> nat \<Rightarrow> 's
     \<Rightarrow> 's \<times> exn option \<times> event list" where
  \<comment> \<open>\<open>if progress_callback: progress_callback(video_url, success, n_total, index)\<close>\<close>
  "invoke_callback cb video_url ok n_total idx s =
     (case cb of
        None \<Rightarrow> (s, None, [])
      | Some f \<Rightarrow>
          (let (s', raised) = f video_url ok n_total idx s
           in (s', raised, [CallbackInvoked video_url ok n_total idx])))"

definition video_exception ::
  "'s progress_callback option \<Rightarrow> string \<Rightarrow> nat \<Rightarrow> nat \<Rightarrow> string
     \<Rightarrow> pydict list \<Rightarrow> pydict list \<Rightarrow> 's
     \<Rightarrow> exn option \<times> pydict list \<times> pydict list \<times> 's \<times> event list" where
  \<comment> \<open>the body of the \<open>except Exception as e\<close> of the loop (lines 264--273), \<open>e\<close> being
      \<open>str(e)\<close>; a raise of the callback here leaves the loop\<close>
  "video_exception cb video_url n_total idx e downloaded_videos failed_videos s =
     (let failed_videos' = failed_videos @ [video_failure video_url e];
          (s', raised, ev) = invoke_callback cb video_url (PBool False) n_total idx s
      in (raised, downloaded_videos, failed_videos', s', ev))"

definition report_progress ::
  "'s progress_callback option \<Rightarrow> string \<Rightarrow> pyval \<Rightarrow> nat \<Rightarrow> nat
     \<Rightarrow> pydict list \<Rightarrow> pydict list \<Rightarrow> 's
     \<Rightarrow> exn option \<times> pydict list \<times> pydict list \<times> 's \<times> event list" where
  \<comment> \<open>lines 261--262, inside the \<open>try\<close>: an \<open>Exception\<close> of the callback enters the
      handler, any other exception leaves the loop\<close>
  "report_progress cb video_url ok n_total idx downloaded_videos failed_videos s =
     (let (s', raised, ev) = invoke_callback cb video_url ok n_total idx s
      in case raised of
           None \<Rightarrow> (None, downloaded_videos, failed_videos, s', ev)
         | Some (BaseException b) \<Rightarrow>
             (Some (BaseException b), downloaded_videos, failed_videos, s', ev)
         | Some (Exception e) \<Rightarrow>
             (let (raised', dl, fl, s'', ev') =
                    video_exception cb video_url n_total idx e downloaded_videos failed_videos s'
              in (raised', dl, fl, s'', ev @ ev')))"

definition channel_iteration ::
  "(exn + pydict) \<Rightarrow> 's progress_callback option \<Rightarrow> string \<Rightarrow> nat \<Rightarrow> nat
     \<Rightarrow> pydict list \<Rightarrow> pydict list \<Rightarrow> 's
     \<Rightarrow> exn option \<times> pydict list \<times> pydict list \<times> 's \<times> event list" where
  \<comment> \<open>one pass of the \<open>for\<close> body (lines 247--273), given what
      \<open>download_single_video\<close> returned or raised; \<open>idx\<close> is \<open>i+1\<close>\<close>
  "channel_iteration outcome cb video_url n_total idx downloaded_videos failed_videos s =
     (case outcome of
        Inl (Exception e) \<Rightarrow>
          video_exception cb video_url n_total idx e downloaded_videos failed_videos s
      | Inl (BaseException b) \<Rightarrow>
          (Some (BaseException b), downloaded_videos, failed_videos, s, [])
      | Inr result \<Rightarrow>
          (case dict_item result ''success'' of
             Inl e \<Rightarrow>
               video_exception cb video_url n_total idx e downloaded_videos failed_videos s
           | Inr ok \<Rightarrow>
               if truthy ok then
                 (let downloaded_videos' = downloaded_videos @ [result]
                  in case dict_item result ''title'' of
                       Inl e \<Rightarrow>
                         video_exception cb video_url n_total idx e
                           downloaded_videos' failed_videos s
                     | Inr title \<Rightarrow>
                         report_progress cb video_url ok n_total idx
                           downloaded_videos' failed_videos s)
               else
                 report_progress cb video_url ok n_total idx
                   downloaded_videos (failed_videos @ [result]) s))"

fun channel_loop ::
  "(nat \<Rightarrow> string \<Rightarrow> (exn + pydict) \<times> event list) \<Rightarrow> 's progress_callback option
     \<Rightarrow> nat \<Rightarrow> nat \<Rightarrow> string list \<Rightarrow> pydict list \<Rightarrow> pydict list \<Rightarrow> 's \<Rightarrow> event list
     \<Rightarrow> exn option \<times> pydict list \<times> pydict list \<times> 's \<times> event list" where
  \<comment> \<open>\<open>for i, video_url in enumerate(video_urls)\<close>; \<open>proc i video_url\<close> is the call of
      \<open>self.download_single_video(video_url, immediate_upload=True)\<close> at position \<open>i\<close>\<close>
  "channel_loop proc cb n_total i [] downloaded_videos failed_videos s log =
     (None, downloaded_videos, failed_videos, s, log)"
| "channel_loop proc cb n_total i (video_url # rest) downloaded_videos failed_videos s log =
     (let (outcome, ev) = proc i video_url;
          (raised, dl, fl, s', ev') =
             channel_iteration outcome cb video_url n_total (Suc i)
               downloaded_videos failed_videos s
      in case raised of
           Some x \<Rightarrow> (Some x, dl, fl, s', log @ ev @ ev')
         | None \<Rightarrow> channel_loop proc cb n_total (Suc i) rest dl fl s' (log @ ev @ ev'))"

definition channel_failure :: "string \<Rightarrow> pydict" where
  "channel_failure e =
     [(''success'', PBool False), (''error'', PStr e),
      (''downloaded_count'', PInt 0), (''failed_count'', PInt 0)]"

definition py_slice_to :: "int \<Rightarrow> 'a list \<Rightarrow> 'a list" where
  \<comment> \<open>\<open>xs[:n]\<close>; a negative \<open>n\<close> counts from the end\<close>
  "py_slice_to n xs = (if 0 \<le> n then take (nat n) xs else take (length xs - nat (- n)) xs)"

definition limit_videos :: "int \<Rightarrow> string list \<Rightarrow> string list" where
  \<comment> \<open>lines 238--240\<close>
  "limit_videos max_videos video_urls =
     (if int (length video_urls) > max_videos then py_slice_to max_videos video_urls
      else video_urls)"

fun first_key_error :: "string list \<Rightarrow> pydict list \<Rightarrow> string option" where
  \<comment> \<open>the first KeyError of \<open>video[k]\<close> for the keys \<open>ks\<close>, video by video\<close>
  "first_key_error ks [] = None"
| "first_key_error ks (video # videos) =
     (case filter (\<lambda>k. map_of video k = None) ks of
        [] \<Rightarrow> first_key_error ks videos
      | k # _ \<Rightarrow> Some ([CHR 0x27] @ k @ [CHR 0x27]))"

definition channel_summary :: "string \<Rightarrow> nat \<Rightarrow> pydict list \<Rightarrow> pydict list \<Rightarrow> pydict" where
  \<comment> \<open>lines 276--284, without the \<open>scan_time\<close> stamp\<close>
  "channel_summary channel_url n_total downloaded_videos failed_videos =
     [(''channel_url'', PStr channel_url),
      (''total_videos_found'', PInt (int n_total)),
      (''downloaded_count'', PInt (int (length downloaded_videos))),
      (''failed_count'', PInt (int (length failed_videos))),
      (''downloaded_videos'', PList (map PDict downloaded_videos)),
      (''failed_videos'', PList (map PDict failed_videos))]"

definition channel_result ::
  "string \<Rightarrow> nat \<Rightarrow> string \<Rightarrow> string \<Rightarrow> pydict list \<Rightarrow> pydict list \<Rightarrow> pydict" where
  \<comment> \<open>lines 305--315\<close>
  "channel_result channel_url n_total summary_file video_list_file downloaded_videos failed_videos =
     [(''success'', PBool True),
      (''channel_url'', PStr channel_url),
      (''total_videos'', PInt (int n_total)),
      (''downloaded_count'', PInt (int (length downloaded_videos))),
      (''failed_count'', PInt (int (length failed_videos))),
      (''summary_file'', PStr summary_file),
      (''video_list_file'', PStr video_list_file),
      (''downloaded_videos'', PList (map PDict downloaded_videos)),
      (''failed_videos'', PList (map PDict failed_videos))]"

definition write_channel_files ::
  "channel_env \<Rightarrow> string \<Rightarrow> string \<Rightarrow> nat \<Rightarrow> pydict list \<Rightarrow> pydict list
     \<Rightarrow> (exn + pydict) \<times> event list" where
  \<comment> \<open>lines 276--315: the summary document, the URL listing, the returned dictionary\<close>
  "write_channel_files env sd channel_url n_total downloaded_videos failed_videos =
     (let summary_file = path_join (path_join sd ''metadata'') ''channel_summary.json'';
          summary = channel_summary channel_url n_total downloaded_videos failed_videos
      in case summary_write_outcome env of
           Some x \<Rightarrow> (Inl x, [])
         | None \<Rightarrow>
            (let video_list_file = path_join sd ''video_urls.txt'';
                 ev = [JsonWritten summary_file summary]
             in case video_list_write_outcome env of
                  Some x \<Rightarrow> (Inl x, ev)
                | None \<Rightarrow>
                   (case first_key_error [''url'', ''title''] downloaded_videos of
                      Some e \<Rightarrow> (Inl (Exception e), ev @ [FileWritten video_list_file])
                    | None \<Rightarrow>
                       (case first_key_error [''url''] failed_videos of
                          Some e \<Rightarrow> (Inl (Exception e), ev @ [FileWritten video_list_file])
                        | None \<Rightarrow>
                            (Inr (channel_result channel_url n_total summary_file
                                    video_list_file downloaded_videos failed_videos),
                             ev @ [FileWritten video_list_file])))))"

definition channel_raised :: "exn \<Rightarrow> 's \<Rightarrow> event list \<Rightarrow> (exn + pydict) \<times> 's \<times> event list" where
  \<comment> \<open>the \<open>except Exception as e\<close> of \<open>download_channel_videos\<close> (lines 317--324)\<close>
  "channel_raised x s log =
     (case x of
        Exception e \<Rightarrow> (Inr (channel_failure e), s, log)
      | BaseException b \<Rightarrow> (Inl (BaseException b), s, log))"

definition download_channel_videos_with ::
  "(nat \<Rightarrow> string \<Rightarrow> (exn + pydict) \<times> event list) \<Rightarrow> SimpleDownloadPipeline
     \<Rightarrow> channel_env \<Rightarrow> string \<Rightarrow> int \<Rightarrow> 's progress_callback option \<Rightarrow> 's
     \<Rightarrow> (exn + pydict) \<times> 's \<times> event list" where
  \<comment> \<open>\<open>download_channel_videos\<close> with the per-video call \<open>self.download_single_video\<close>
      as the parameter \<open>proc\<close>\<close>
  "download_channel_videos_with proc self env channel_url max_videos cb s =
     (case session_dir self of
        None \<Rightarrow> (Inl (Exception no_active_session), s, [])
      | Some sd \<Rightarrow>
         (case scan_channel_outcome env of
            Inl x \<Rightarrow> channel_raised x s []
          | Inr None \<Rightarrow> (Inr (channel_failure ''Channel scan failed''), s, [])
          | Inr (Some video_list_path) \<Rightarrow>
             (case get_video_urls_outcome env of
                Inl x \<Rightarrow> channel_raised x s []
              | Inr all_urls \<Rightarrow>
                 if all_urls = [] then
                   (Inr (channel_failure ''No videos found in channel''), s, [])
                 else
                   (let video_urls = limit_videos max_videos all_urls;
                        (raised, downloaded_videos, failed_videos, s', log) =
                           channel_loop proc cb (length video_urls) 0 video_urls [] [] s []
                    in case raised of
                         Some x \<Rightarrow> channel_raised x s' log
                       | None \<Rightarrow>
                          (let (written, ev) =
                                 write_channel_files env sd channel_url (length video_urls)
                                   downloaded_videos failed_videos
                           in case written of
                                Inl x \<Rightarrow> channel_raised x s' (log @ ev)
                              | Inr result \<Rightarrow> (Inr result, s', log @ ev))))))"

definition download_channel_videos ::
  "SimpleDownloadPipeline \<Rightarrow> channel_env \<Rightarrow> string \<Rightarrow> int \<Rightarrow> 's progress_callback option
     \<Rightarrow> 's \<Rightarrow> (exn + pydict) \<times> 's \<times> event list" where
  "download_channel_videos self env channel_url max_videos cb s =
     download_channel_videos_with
       (\<lambda>i video_url. download_single_video self (video_envs env i) video_url None True)
       self env channel_url max_videos cb s"


section \<open>simple\_pipeline.py: process\_url and the download summary\<close>

record run_env =
  session_timestamp :: string              \<comment> \<open>the clock's \<open>strftime\<close> in \<open>create_session\<close>\<close>
  mkdir_outcome :: "exn option"
  channel_outcomes :: channel_env
  video_outcomes :: video_env
  results_write_outcome :: "exn option"    \<comment> \<open>writing \<open>download_results.json\<close>\<close>
  elapsed :: int                           \<comment> \<open>\<open>time.time() - start_time\<close>, in whole seconds\<close>

definition channel_patterns :: "string list" where
  "channel_patterns = [''/channel/'', ''/c/'', ''/user/'', ''/@'', ''/playlist?'']"

definition is_channel :: "string \<Rightarrow> bool" where
  "is_channel the_url = list_ex (\<lambda>pat. contains pat (lower the_url)) channel_patterns"

definition unknown_failure :: "string \<Rightarrow> pydict" where
  \<comment> \<open>the dictionary of the outer \<open>except\<close> (lines 396--402)\<close>
  "unknown_failure e =
     [(''success'', PBool False), (''error'', PStr e), (''type'', PStr ''unknown''),
      (''downloaded_count'', PInt 0), (''failed_count'', PInt 0)]"

definition single_video_counts :: "pyval \<Rightarrow> pydict" where
  "single_video_counts ok =
     (if truthy ok then
        [(''downloaded_count'', PInt 1), (''failed_count'', PInt 0), (''total_videos'', PInt 1)]
      else
        [(''downloaded_count'', PInt 0), (''failed_count'', PInt 1), (''total_videos'', PInt 1)])"

definition session_dir_str :: "SimpleDownloadPipeline \<Rightarrow> string" where
  \<comment> \<open>\<open>str(self.session_dir)\<close>\<close>
  "session_dir_str self = (case session_dir self of None \<Rightarrow> ''None'' | Some d \<Rightarrow> d)"

definition process_url_try_with ::
  "(SimpleDownloadPipeline \<Rightarrow> (exn + pydict) \<times> event list)
     \<Rightarrow> (SimpleDownloadPipeline \<Rightarrow> (exn + pydict) \<times> 's \<times> event list)
     \<Rightarrow> SimpleDownloadPipeline \<Rightarrow> run_env \<Rightarrow> string \<Rightarrow> 's
     \<Rightarrow> (exn + pydict) \<times> SimpleDownloadPipeline \<times> 's \<times> event list" where
  \<comment> \<open>the \<open>try\<close> block of \<open>process_url\<close> (lines 345--392), with the calls
      \<open>self.download_single_video(...)\<close> and \<open>self.download_channel_videos(...)\<close> as the
      parameters \<open>single\<close> and \<open>channel\<close>; \<open>Inl e\<close> when \<open>e\<close> is raised inside the block\<close>
  "process_url_try_with single channel self env the_url s =
     (let (self1, mk) = create_session self None (session_timestamp env) (mkdir_outcome env)
      in case mk of
           Some e \<Rightarrow> (Inl e, self1, s, [])
         | None \<Rightarrow>
            (let (processed, s1, ev) =
                   (if is_channel the_url then
                      (case channel self1 of
                         (Inl e, s', ev) \<Rightarrow> (Inl e, s', ev)
                       | (Inr result, s', ev) \<Rightarrow>
                           (Inr (dict_set result ''type'' (PStr ''channel'')), s', ev))
                    else
                      (case single self1 of
                         (Inl e, ev) \<Rightarrow> (Inl e, s, ev)
                       | (Inr result, ev) \<Rightarrow>
                           (let result1 = dict_set result ''type'' (PStr ''video'')
                            in case dict_item result1 ''success'' of
                                 Inl e \<Rightarrow> (Inl (Exception e), s, ev)
                               | Inr ok \<Rightarrow>
                                   (Inr (dict_update result1 (single_video_counts ok)), s, ev))))
             in case processed of
                  Inl e \<Rightarrow> (Inl e, self1, s1, ev)
                | Inr result \<Rightarrow>
                   (let result2 =
                          dict_update result
                            [(''session_name'',
                                (case current_session self1 of None \<Rightarrow> PNone | Some n \<Rightarrow> PStr n)),
                             (''session_dir'', PStr (session_dir_str self1)),
                             (''processing_time'', PInt (elapsed env))];
                        results_file =
                          path_join (session_dir_str self1) ''download_results.json''
                    in case results_write_outcome env of
                         Some e \<Rightarrow> (Inl e, self1, s1, ev)
                       | None \<Rightarrow>
                           (Inr result2, self1, s1, ev @ [JsonWritten results_file result2]))))"

definition process_url_with ::
  "(SimpleDownloadPipeline \<Rightarrow> (exn + pydict) \<times> event list)
     \<Rightarrow> (SimpleDownloadPipeline \<Rightarrow> (exn + pydict) \<times> 's \<times> event list)
     \<Rightarrow> SimpleDownloadPipeline \<Rightarrow> run_env \<Rightarrow> string \<Rightarrow> 's
     \<Rightarrow> (exn + pydict) \<times> SimpleDownloadPipeline \<times> 's \<times> event list" where
  \<comment> \<open>\<open>try: ... except Exception as e: return {...}\<close> (lines 394--402): an exception
      that is not an \<open>Exception\<close> leaves \<open>process_url\<close>\<close>
  "process_url_with single channel self env the_url s =
     (case process_url_try_with single channel self env the_url s of
        (Inl (Exception e), self', s', ev) \<Rightarrow> (Inr (unknown_failure e), self', s', ev)
      | (Inl (BaseException b), self', s', ev) \<Rightarrow> (Inl (BaseException b), self', s', ev)
      | (Inr result, self', s', ev) \<Rightarrow> (Inr result, self', s', ev))"

definition process_url ::
  "SimpleDownloadPipeline \<Rightarrow> run_env \<Rightarrow> string \<Rightarrow> string option \<Rightarrow> int
     \<Rightarrow> 's progress_callback option \<Rightarrow> 's
     \<Rightarrow> (exn + pydict) \<times> SimpleDownloadPipeline \<times> 's \<times> event list" where
  "process_url self env the_url custom_filename max_videos cb s =
     process_url_with
       (\<lambda>self1. download_single_video self1 (video_outcomes env) the_url custom_filename True)
       (\<lambda>self1. download_channel_videos self1 (channel_outcomes env) the_url max_videos cb s)
       self env the_url s"


record summary_env =
  listing_outcome :: "exn option"                     \<comment> \<open>a \<open>glob\<close> or \<open>stat\<close> raises\<close>
  audio_files :: "(string \<times> string \<times> nat) list"     \<comment> \<open>path, name, size of each \<open>*.flac\<close>\<close>
  metadata_files :: "(string \<times> string \<times> nat) list"
  text_files :: "(string \<times> string \<times> nat) list"

definition file_entry :: "string \<Rightarrow> string \<times> string \<times> nat \<Rightarrow> pyval" where
  "file_entry kind f =
     (case f of (path, name, sz) \<Rightarrow>
        PDict [(''path'', PStr path), (''name'', PStr name), (''size'', PInt (int sz)),
               (''type'', PStr kind)])"

definition get_download_summary ::
  "SimpleDownloadPipeline \<Rightarrow> summary_env \<Rightarrow> exn + pydict" where
  "get_download_summary self env =
     (case session_dir self of
        None \<Rightarrow> Inr [(''error'', PStr ''No active session'')]
      | Some sd \<Rightarrow>
         (case listing_outcome env of
            Some e \<Rightarrow> Inl e
          | None \<Rightarrow>
             Inr [(''session_dir'', PStr sd),
                  (''audio_files'', PList (map (file_entry ''audio'') (audio_files env))),
                  (''metadata_files'', PList (map (file_entry ''metadata'') (metadata_files env))),
                  (''text_files'', PList (map (file_entry ''text'') (text_files env))),
                  (''total_files'',
                     PInt (int (length (audio_files env) + length (metadata_files env)
                                + length (text_files env)))),
                  (''total_audio_size'',
                     PInt (int (sum_list (map (\<lambda>f. snd (snd f)) (audio_files env))))),
                  (''ready_for_gcp_upload'', PBool True),
                  (''gcp_available'', PBool (is_available (gcp_uploader self)))]))"

section \<open>app.py: the job record and the two background runners\<close>

text \<open>
  Message texts are kept in ASCII: the emoji and accented letters of the source's
  literals are left out or transliterated.
\<close>

record JobStatus =
  job_id :: string
  url :: string
  status :: string
  progress :: int
  message :: string
  start_time :: nat
  end_time :: "nat option"
  results :: "pydict option"
  error :: "string option"

definition JobStatus_init :: "string \<Rightarrow> string \<Rightarrow> nat \<Rightarrow> JobStatus" where
  "JobStatus_init jid the_url t =
     \<lparr>job_id = jid, url = the_url, status = ''waiting'', progress = 0,
      message = ''Iniciando processamento...'', start_time = t, end_time = None,
      results = None, error = None\<rparr>"

definition JobStatus_update :: "string \<Rightarrow> int \<Rightarrow> string \<Rightarrow> JobStatus \<Rightarrow> JobStatus" where
  "JobStatus_update st pr msg job = job\<lparr>status := st, progress := pr, message := msg\<rparr>"

definition JobStatus_complete :: "pydict \<Rightarrow> nat \<Rightarrow> JobStatus \<Rightarrow> JobStatus" where
  "JobStatus_complete res t job =
     job\<lparr>status := ''completed'', progress := 100,
         message := ''Processamento concluido com sucesso!'',
         end_time := Some t, results := Some res\<rparr>"

definition JobStatus_fail :: "string \<Rightarrow> nat \<Rightarrow> JobStatus \<Rightarrow> JobStatus" where
  "JobStatus_fail e t job =
     job\<lparr>status := ''failed'', progress := 0, message := ''Erro: '' @ e,
         end_time := Some t, error := Some e\<rparr>"

text \<open>
  The registry \<open>active_jobs\<close>, the runner's local counter, and the successive states of
  job records that a status poller can read: one snapshot per \<open>with job_lock\<close> block of
  \<open>process_channel_background\<close>, and one per method call on the job in
  \<open>process_youtube_url_background\<close>, which takes no lock.
\<close>

record runner_state =
  active_jobs :: "string \<Rightarrow> JobStatus option"
  processed_count :: nat
  snapshots :: "JobStatus list"

definition on_job :: "string \<Rightarrow> (JobStatus \<Rightarrow> JobStatus) \<Rightarrow> runner_state \<Rightarrow> runner_state" where
  \<comment> \<open>\<open>if job_id in active_jobs: active_jobs[job_id]. ...\<close>\<close>
  "on_job jid f st =
     (case active_jobs st jid of
        None \<Rightarrow> st
      | Some job \<Rightarrow>
          st\<lparr>active_jobs := (active_jobs st)(jid \<mapsto> f job),
             snapshots := snapshots st @ [f job]\<rparr>)"

fun after_last :: "string \<Rightarrow> string \<Rightarrow> string" where
  \<comment> \<open>\<open>s.split(sep)[-1]\<close>\<close>
  "after_last sep [] = []"
| "after_last sep (c # cs) =
     (if contains sep cs then after_last sep cs
      else if prefix sep (c # cs) then drop (length sep) (c # cs)
      else c # cs)"

definition video_id_of :: "string \<Rightarrow> string" where
  \<comment> \<open>lines 92 and 238\<close>
  "video_id_of video_url =
     (if contains ''watch?v='' video_url
      then takeWhile (\<lambda>c. c \<noteq> CHR ''&'') (after_last ''watch?v='' video_url)
      else drop (length video_url - 11) video_url)"

definition str_int :: "int \<Rightarrow> string" where
  "str_int i = (if i < 0 then ''-'' @ str_nat (nat (- i)) else str_nat (nat i))"

fun fmt :: "pyval \<Rightarrow> string" where
  \<comment> \<open>\<open>str(v)\<close> inside an f-string; containers are abbreviated\<close>
  "fmt PNone = ''None''"
| "fmt (PBool b) = (if b then ''True'' else ''False'')"
| "fmt (PInt i) = str_int i"
| "fmt (PStr s) = s"
| "fmt (PList xs) = ''[...]''"
| "fmt (PDict d) = ''{...}''"

subsection \<open>The floating-point arithmetic of the progress percentage\<close>

text \<open>
  Both runners compute \<open>int((current_index / total_videos) * c)\<close>.  In Python \<open>/\<close> on two
  integers is the correctly rounded binary64 quotient, the product with the integer \<open>c\<close> is
  rounded to binary64 again, and \<open>int\<close> truncates.  A non-negative double is written here
  as a pair \<open>(m, e)\<close> standing for \<open>m * 2 ^ e\<close> with \<open>m \<le> 2 ^ 53\<close>; rounding is to nearest, ties
  to even.  The exponent range of binary64 is not modelled: for indices and totals of at most
  2500 every intermediate value lies between \<open>2 ^ -12\<close> and \<open>2 ^ 7\<close>.
\<close>

type_synonym pyfloat = "nat \<times> int"

fun bit_length :: "nat \<Rightarrow> nat" where
  "bit_length n = (if n = 0 then 0 else Suc (bit_length (n div 2)))"

declare bit_length.simps [simp del]

definition round_half_even :: "nat \<Rightarrow> nat \<Rightarrow> nat" where
  \<comment> \<open>the integer nearest to \<open>a / b\<close>, the even one of two equally near\<close>
  "round_half_even a b =
     (let q = a div b; r = a mod b
      in if 2 * r < b then q
         else if b < 2 * r then q + 1
         else if even q then q else q + 1)"

definition scale2 :: "nat \<Rightarrow> nat \<Rightarrow> int \<Rightarrow> nat \<times> nat" where
  \<comment> \<open>numerator and denominator of \<open>(a / b) * 2 ^ s\<close>\<close>
  "scale2 a b s = (if 0 \<le> s then (a * 2 ^ nat s, b) else (a, b * 2 ^ nat (- s)))"

definition py_truediv :: "nat \<Rightarrow> nat \<Rightarrow> pyfloat" where
  \<comment> \<open>\<open>a / b\<close> for integers \<open>a \<ge> 0\<close>, \<open>b > 0\<close>: the quotient rounded to 53 significant bits\<close>
  "py_truediv a b =
     (let s0 = 53 + int (bit_length b) - int (bit_length a);
          s = (if 2 ^ 53 * snd (scale2 a b s0) \<le> fst (scale2 a b s0) then s0 - 1 else s0)
      in (round_half_even (fst (scale2 a b s)) (snd (scale2 a b s)), - s))"

definition py_float_mul :: "pyfloat \<Rightarrow> nat \<Rightarrow> pyfloat" where
  \<comment> \<open>\<open>x * c\<close> for a float \<open>x\<close> and an integer \<open>0 \<le> c < 2 ^ 53\<close>\<close>
  "py_float_mul x c =
     (case x of (m, e) \<Rightarrow>
        (let p = m * c; l = bit_length p
         in if l \<le> 53 then (p, e)
            else (round_half_even p (2 ^ (l - 53)), e + int (l - 53))))"

definition py_int_of_float :: "pyfloat \<Rightarrow> int" where
  \<comment> \<open>\<open>int(x)\<close>\<close>
  "py_int_of_float x =
     (case x of (m, e) \<Rightarrow> if 0 \<le> e then int m * 2 ^ nat e else int (m div 2 ^ nat (- e)))"

definition ratio_times :: "nat \<Rightarrow> nat \<Rightarrow> nat \<Rightarrow> int" where
  \<comment> \<open>\<open>int((k / n) * c)\<close>\<close>
  "ratio_times k n c = py_int_of_float (py_float_mul (py_truediv k n) c)"

definition channel_progress_callback :: "string \<Rightarrow> runner_state progress_callback" where
  \<comment> \<open>lines 226--247\<close>
  "channel_progress_callback jid video_url ok total_videos current_index st =
     (case active_jobs st jid of
        None \<Rightarrow> (st, None)
      | Some job \<Rightarrow>
          (let st1 = st\<lparr>processed_count := processed_count st + 1\<rparr>;
               video_id = video_id_of video_url;
               status_text = ''Video '' @ str_nat current_index @ ''/'' @ str_nat total_videos
                             @ '' processado''
           in if total_videos = 0 then (st1, Some (Exception ''division by zero''))
              else
                (let progress_percent = min 90 (ratio_times current_index total_videos 90)
                 in (on_job jid
                       (JobStatus_update ''processing'' progress_percent
                          (''Processando canal... '' @ status_text @ '' | ID: '' @ video_id))
                       st1, None))))"

fun count_uploaded :: "pyval \<Rightarrow> string + nat \<times> nat" where
  \<comment> \<open>\<open>sum(1 for video in vs if video.get('uploaded_to_gcp', False))\<close> and \<open>len(vs)\<close>;
      \<open>Inl\<close> is the \<open>str\<close> of the AttributeError or TypeError raised\<close>
  "count_uploaded (PList vs) =
     (if list_all (\<lambda>v. case v of PDict d \<Rightarrow> True | _ \<Rightarrow> False) vs then
        Inr (length (filter (\<lambda>v. case v of
                                    PDict d \<Rightarrow> truthy (dict_get d ''uploaded_to_gcp'' (PBool False))
                                  | _ \<Rightarrow> False) vs),
             length vs)
      else Inl ''object has no attribute get'')"
| "count_uploaded v = Inl ''object is not iterable''"

record app_env =
  pipeline_init_outcome :: "exn + SimpleDownloadPipeline"
     \<comment> \<open>\<open>SimpleDownloadPipeline(...)\<close> raises or returns the pipeline, no session yet\<close>
  url_run :: run_env
  summary_outcomes :: summary_env
  web_session_timestamp :: string
  web_mkdir_outcome :: "exn option"
  finished_at :: nat

definition channel_final_message :: "pydict \<Rightarrow> string" where
  \<comment> \<open>lines 283--297\<close>
  "channel_final_message result =
     (let gcp_upload = (case dict_get result ''gcp_upload'' (PDict []) of
                          PDict d \<Rightarrow> d | _ \<Rightarrow> []);
          gcp_note = fmt (dict_get gcp_upload ''error'' (PStr ''nao configurado''))
      in if dict_get result ''type'' PNone = PStr ''channel'' then
           (let counts = fmt (dict_get result ''downloaded_count'' (PInt 0)) @ ''/''
                         @ fmt (dict_get result ''total_videos'' (PInt 0)) @ '' videos''
            in if truthy (dict_get gcp_upload ''success'' (PBool False))
               then ''Canal processado e enviado para GCP! '' @ counts
               else ''Canal processado! '' @ counts @ '' (GCP: '' @ gcp_note @ '')'')
         else
           (if truthy (dict_get gcp_upload ''success'' (PBool False))
            then ''Video baixado e enviado para GCP!''
            else ''Video baixado! (GCP: '' @ gcp_note @ '')''))"

definition channel_job_failed :: "string \<Rightarrow> string \<Rightarrow> runner_state \<Rightarrow> pydict \<times> runner_state" where
  \<comment> \<open>the body of the \<open>except Exception as e\<close> of \<open>process_channel_background\<close>
      (lines 306--315), \<open>e\<close> being \<open>str(e)\<close>\<close>
  "channel_job_failed jid e st =
     ([(''success'', PBool False), (''error'', PStr e)],
      on_job jid (\<lambda>job. (JobStatus_update ''failed'' 0 (''Erro: '' @ e) job)\<lparr>error := Some e\<rparr>) st)"

definition channel_job_raised ::
  "string \<Rightarrow> exn \<Rightarrow> runner_state \<Rightarrow> (exn + pydict) \<times> runner_state" where
  \<comment> \<open>an exception inside the \<open>try\<close> of \<open>process_channel_background\<close>: the handler runs for
      an \<open>Exception\<close>; any other exception ends the thread\<close>
  "channel_job_raised jid x st =
     (case x of
        Exception e \<Rightarrow> (Inr (fst (channel_job_failed jid e st)), snd (channel_job_failed jid e st))
      | BaseException b \<Rightarrow> (Inl (BaseException b), st))"

definition finish_channel_job ::
  "string \<Rightarrow> app_env \<Rightarrow> pydict \<Rightarrow> SimpleDownloadPipeline \<Rightarrow> runner_state
     \<Rightarrow> (exn + pydict) \<times> runner_state" where
  \<comment> \<open>lines 256--304 of \<open>process_channel_background\<close>: what follows \<open>process_url\<close>.
      The final update sits inside \<open>if result.get('success', False):\<close>\<close>
  "finish_channel_job jid env result pipeline' st2 =
     (if truthy (dict_get result ''success'' (PBool False)) then
        (case get_download_summary pipeline' (summary_outcomes env) of
           Inl x \<Rightarrow> channel_job_raised jid x st2
         | Inr download_summary \<Rightarrow>
            (let finalized =
                   (if truthy (dict_get download_summary ''gcp_available'' (PBool False))
                    then
                      (let st3 = on_job jid
                                   (JobStatus_update ''finalizing'' 95
                                      ''Finalizando uploads para GCP...'') st2
                       in case count_uploaded
                                 (dict_get result ''downloaded_videos'' (PList [])) of
                            Inl e \<Rightarrow> (Inl e, st3)
                          | Inr (uploaded_count, total_count) \<Rightarrow>
                              (Inr (dict_set result ''gcp_upload''
                                      (PDict
                                         [(''success'', PBool (uploaded_count > 0)),
                                          (''uploaded_count'', PInt (int uploaded_count)),
                                          (''total_files'', PInt (int total_count)),
                                          (''failed_count'',
                                             PInt (int total_count - int uploaded_count))])),
                               st3))
                    else (Inr result, st2))
             in case finalized of
                  (Inl e, st3) \<Rightarrow> channel_job_raised jid (Exception e) st3
                | (Inr result', st3) \<Rightarrow>
                    (Inr result',
                     on_job jid
                       (\<lambda>job.
                          (if truthy (dict_get result' ''success'' (PBool False)) then
                             JobStatus_update ''completed'' 100
                               (channel_final_message result') job
                           else
                             JobStatus_update ''failed'' 0
                               (''Erro: '' @ fmt (dict_get result' ''error''
                                                    (PStr ''Erro desconhecido''))) job)
                          \<lparr>results := Some result'\<rparr>) st3)))
      else (Inr result, st2))"

definition process_channel_background ::
  "string \<Rightarrow> string \<Rightarrow> app_env \<Rightarrow> runner_state \<Rightarrow> (exn + pydict) \<times> runner_state" where
  \<comment> \<open>\<open>Inl\<close>: the exception with which the thread ends\<close>
  "process_channel_background jid the_url env st =
     (let st1 = on_job jid
                  (JobStatus_update ''downloading'' 10
                     (if is_channel the_url then ''Iniciando processamento do canal...''
                      else ''Iniciando processamento do video...'')) st
      in case pipeline_init_outcome env of
           Inl x \<Rightarrow> channel_job_raised jid x st1
         | Inr pipeline \<Rightarrow>
            (case process_url pipeline (url_run env) the_url None 2500
                    (Some (channel_progress_callback jid)) (st1\<lparr>processed_count := 0\<rparr>) of
               (Inl x, pipeline', st2, ev) \<Rightarrow> channel_job_raised jid x st2
             | (Inr result, pipeline', st2, ev) \<Rightarrow>
                 finish_channel_job jid env result pipeline' st2))"

record options =
  opt_filename :: "string option"
  opt_session_name :: "string option"
  opt_max_videos :: "int option"

definition youtube_progress_callback :: "string \<Rightarrow> runner_state progress_callback" where
  \<comment> \<open>lines 90--102\<close>
  "youtube_progress_callback jid video_url ok total_videos current_index st =
     (if total_videos = 0 then (st, Some (Exception ''division by zero''))
      else
        (let progress_percent = min 90 (ratio_times current_index total_videos 80 + 10);
             video_id = video_id_of video_url;
             counts = str_nat current_index @ ''/'' @ str_nat total_videos;
             status_msg =
               (if truthy ok then
                  ''Video '' @ counts @ '' processado e enviado | ID: '' @ video_id
                else
                  ''Baixando video '' @ counts @ '' | ID: '' @ video_id
                  @ (if current_index > 1 then '' (pode demorar para videos longos)'' else []))
         in (on_job jid (JobStatus_update ''processing'' progress_percent status_msg) st, None)))"

definition youtube_final_message :: "pydict \<Rightarrow> pydict \<Rightarrow> string + string" where
  \<comment> \<open>lines 119--141: the text of the \<open>completed\<close> update\<close>
  "youtube_final_message result download_summary =
     (if truthy (dict_get download_summary ''gcp_available'' (PBool False)) then
        (case (if dict_get result ''type'' PNone = PStr ''video'' then
                 Inr (if truthy (dict_get result ''uploaded_to_gcp'' (PBool False))
                      then 1 else 0, 1)
               else count_uploaded (dict_get result ''downloaded_videos'' (PList []))) of
           Inl e \<Rightarrow> Inl e
         | Inr (uploaded_count, total_processed) \<Rightarrow>
             Inr (if uploaded_count = total_processed then
                    ''Processamento concluido! '' @ str_nat uploaded_count
                    @ '' arquivos enviados para GCP.''
                  else if uploaded_count > 0 then
                    ''Processamento concluido! '' @ str_nat uploaded_count @ ''/''
                    @ str_nat total_processed @ '' arquivos enviados para GCP.''
                  else
                    ''Processamento concluido, mas uploads GCP falharam. Arquivos salvos localmente.''))
      else Inr ''Processamento concluido! GCP nao configurado - arquivos salvos localmente.'')"

definition youtube_job_raised ::
  "string \<Rightarrow> exn \<Rightarrow> nat \<Rightarrow> runner_state \<Rightarrow> exn option \<times> runner_state" where
  \<comment> \<open>an exception inside the \<open>try\<close> of \<open>process_youtube_url_background\<close>: the handler
      (lines 145--147) calls \<open>job.fail(str(e))\<close> for an \<open>Exception\<close>; any other exception
      ends the thread\<close>
  "youtube_job_raised jid x t st =
     (case x of
        Exception e \<Rightarrow> (None, on_job jid (JobStatus_fail e t) st)
      | BaseException b \<Rightarrow> (Some (BaseException b), st))"

definition finish_youtube_job ::
  "string \<Rightarrow> app_env \<Rightarrow> pydict \<Rightarrow> SimpleDownloadPipeline \<Rightarrow> runner_state
     \<Rightarrow> exn option \<times> runner_state" where
  \<comment> \<open>lines 112--143 of \<open>process_youtube_url_background\<close>: what follows \<open>process_url\<close>\<close>
  "finish_youtube_job jid env result pipeline2 st2 =
     (let st3 = on_job jid
                  (JobStatus_update ''finalizing'' 95 ''Finalizando processamento...'') st2
      in case get_download_summary pipeline2 (summary_outcomes env) of
           Inl x \<Rightarrow> youtube_job_raised jid x (finished_at env) st3
         | Inr download_summary \<Rightarrow>
            (let result1 = dict_set result ''download_summary'' (PDict download_summary)
             in case youtube_final_message result1 download_summary of
                  Inl e \<Rightarrow> youtube_job_raised jid (Exception e) (finished_at env) st3
                | Inr msg \<Rightarrow>
                   (let st4 = on_job jid (JobStatus_update ''completed'' 100 msg) st3
                    in (None, on_job jid (JobStatus_complete result1 (finished_at env)) st4))))"

definition process_youtube_url_background ::
  "string \<Rightarrow> string \<Rightarrow> options \<Rightarrow> app_env \<Rightarrow> runner_state \<Rightarrow> exn option \<times> runner_state" where
  \<comment> \<open>\<open>Some e\<close>: the exception with which the thread ends; \<open>active_jobs[job_id]\<close> raises
      KeyError before the \<open>try\<close>\<close>
  "process_youtube_url_background jid the_url opts env st =
     (case active_jobs st jid of
        None \<Rightarrow> (Some (Exception ([CHR 0x27] @ jid @ [CHR 0x27])), st)
      | Some job0 \<Rightarrow>
         (case pipeline_init_outcome env of
            Inl x \<Rightarrow> youtube_job_raised jid x (finished_at env) st
          | Inr pipeline \<Rightarrow>
             (let st1 = on_job jid (JobStatus_update ''downloading'' 10 ''Iniciando download...'') st;
                  session_name = opt_or (opt_session_name opts)
                                   (''web_session_'' @ web_session_timestamp env);
                  (pipeline1, mk) = create_session pipeline (Some session_name)
                                      (web_session_timestamp env) (web_mkdir_outcome env)
              in case mk of
                   Some x \<Rightarrow> youtube_job_raised jid x (finished_at env) st1
                 | None \<Rightarrow>
                    (case process_url pipeline1 (url_run env) the_url (opt_filename opts)
                            (case opt_max_videos opts of None \<Rightarrow> 2500 | Some n \<Rightarrow> n)
                            (Some (youtube_progress_callback jid)) st1 of
                       (Inl x, pipeline2, st2, ev) \<Rightarrow>
                          youtube_job_raised jid x (finished_at env) st2
                     | (Inr result, pipeline2, st2, ev) \<Rightarrow>
                          finish_youtube_job jid env result pipeline2 st2))))"

section \<open>Reading the effect log\<close>

definition events_before_deletion :: "string \<Rightarrow> event list \<Rightarrow> event list" where
  \<comment> \<open>what happened before the first attempt to delete \<open>p\<close>\<close>
  "events_before_deletion p log =
     takeWhile (\<lambda>x. x \<noteq> Unlinked p \<and> x \<noteq> UnlinkFailed p) log"

section \<open>Concrete runs\<close>

definition example_uploader :: GCPUploader where
  "example_uploader =
     \<lparr>project_id = ''GCP_PROJECT_ID'', bucket_name = ''dataset_youtube_katube'',
      credentials_path = None, GCP_AVAILABLE = True,
      client = Some ''client'', bucket = Some ''dataset_youtube_katube''\<rparr>"

definition example_pipeline :: SimpleDownloadPipeline where
  "example_pipeline =
     \<lparr>output_base_dir = ''out'', gcp_uploader = example_uploader,
      current_session = Some ''s1'', session_dir = Some ''out/s1''\<rparr>"

definition upload_accepts :: upload_env where
  "upload_accepts = \<lparr>local_exists = True, blob_upload = None, local_size = Inr 100\<rparr>"

definition video_ok :: video_env where
  "video_ok =
     \<lparr>video_info_outcome =
        Inr \<lparr>info_title = Some ''T'', info_id = Some ''abc'', info_duration = Some 60\<rparr>,
      download_outcome = Inr ''out/s1/downloads/abc.flac'',
      audio_size_outcome = Inr (Some 100),
      metadata_write_outcome = None,
      audio_upload = upload_accepts,
      metadata_upload = upload_accepts,
      audio_unlink = Removed,
      metadata_unlink = Removed\<rparr>"

definition video_cleanup_fails :: video_env where
  "video_cleanup_fails =
     video_ok\<lparr>metadata_unlink := UnlinkRaises (Exception ''Permission denied'')\<rparr>"

definition example_url :: string where
  "example_url = ''https://youtu.be/abc''"

definition uploaded_result :: "bool \<Rightarrow> pydict" where
  "uploaded_result cleaned =
     [(''success'', PBool True),
      (''video_id'', PStr ''abc''),
      (''title'', PStr ''T''),
      (''url'', PStr ''https://youtu.be/abc''),
      (''audio_path'', PStr ''out/s1/downloads/abc.flac''),
      (''metadata_path'', PStr ''out/s1/metadata/abc_metadata.json''),
      (''file_size'', PInt 100),
      (''duration'', PInt 60),
      (''uploaded_to_gcp'', PBool True),
      (''local_files_cleaned'', PBool cleaned),
      (''gcp_audio_url'',
         PStr ''gs://dataset_youtube_katube/youtube_downloads/s1/downloads/abc.flac''),
      (''gcp_metadata_url'',
         PStr ''gs://dataset_youtube_katube/youtube_downloads/s1/metadata/abc_metadata.json'')]"

definition uploaded_log :: "event list" where
  "uploaded_log =
     [Downloaded ''https://youtu.be/abc'' ''out/s1/downloads/abc.flac'',
      MetadataWritten ''out/s1/metadata/abc_metadata.json'',
      UploadReturned ''out/s1/downloads/abc.flac''
        ''youtube_downloads/s1/downloads/abc.flac'' True,
      UploadReturned ''out/s1/metadata/abc_metadata.json''
        ''youtube_downloads/s1/metadata/abc_metadata.json'' True]"

definition field_cleared :: "pydict \<Rightarrow> string \<Rightarrow> bool" where
  \<comment> \<open>a result field is cleared when it is absent, \<open>None\<close> or empty\<close>
  "field_cleared d k = (\<not> truthy (dict_get d k PNone))"

definition fresh_pipeline :: SimpleDownloadPipeline where
  \<comment> \<open>a pipeline as its constructor leaves it: no session yet\<close>
  "fresh_pipeline =
     \<lparr>output_base_dir = ''out'', gcp_uploader = example_uploader,
      current_session = None, session_dir = None\<rparr>"

definition no_channel :: channel_env where
  \<comment> \<open>a channel whose enumeration finds no video\<close>
  "no_channel =
     \<lparr>scan_channel_outcome = Inr (Some ''scan/list.txt''),
      get_video_urls_outcome = Inr [],
      video_envs = (\<lambda>i. video_ok),
      summary_write_outcome = None,
      video_list_write_outcome = None\<rparr>"

definition run_ok_env :: run_env where
  "run_ok_env =
     \<lparr>session_timestamp = ''20250101_000000'', mkdir_outcome = None,
      channel_outcomes = no_channel, video_outcomes = video_ok,
      results_write_outcome = None, elapsed = 5\<rparr>"

section \<open>Reading the callback invocations off the log\<close>

fun callback_calls :: "event list \<Rightarrow> (string \<times> pyval \<times> nat \<times> nat) list" where
  "callback_calls [] = []"
| "callback_calls (CallbackInvoked u ok n i # es) = (u, ok, n, i) # callback_calls es"
| "callback_calls (e # es) = callback_calls es"

definition titled_outcome :: "(exn + pydict) \<Rightarrow> bool" where
  \<comment> \<open>a result that reports success carries a \<open>title\<close>, as every result of
      \<open>download_single_video\<close> does\<close>
  "titled_outcome outcome =
     (case outcome of
        Inl e \<Rightarrow> True
      | Inr result \<Rightarrow>
          (case map_of result ''success'' of
             None \<Rightarrow> True
           | Some ok \<Rightarrow> if truthy ok then map_of result ''title'' \<noteq> None else True))"

section \<open>More concrete runs\<close>

definition raise_on_success :: "unit progress_callback" where
  \<comment> \<open>a caller's callback that raises when it is told of a success\<close>
  "raise_on_success video_url ok n_total idx s =
     (s, if truthy ok then Some (Exception ''callback failed'') else None)"

definition one_video_channel :: channel_env where
  "one_video_channel =
     \<lparr>scan_channel_outcome = Inr (Some ''scan/list.txt''),
      get_video_urls_outcome = Inr [''https://youtu.be/abc''],
      video_envs = (\<lambda>i. video_ok),
      summary_write_outcome = None,
      video_list_write_outcome = None\<rparr>"

definition channel_url_example :: string where
  "channel_url_example = ''https://www.youtube.com/@chan''"

section \<open>Reading the job runners\<close>

text \<open>
  The effect of one callback invocation on the caller's state, the videos a channel run
  enumerates (none when the scan or the listing fails), and the fields of a job record
  that the statements below speak about.
\<close>

definition apply_callback ::
  "'s progress_callback \<Rightarrow> 's \<Rightarrow> string \<times> pyval \<times> nat \<times> nat \<Rightarrow> 's" where
  "apply_callback cb s c = (case c of (u, ok, n, k) \<Rightarrow> fst (cb u ok n k s))"

definition call_args :: "string \<times> pyval \<times> nat \<times> nat \<Rightarrow> string \<times> nat \<times> nat" where
  "call_args c = (case c of (u, ok, n, k) \<Rightarrow> (u, n, k))"

definition enumerated_videos :: "channel_env \<Rightarrow> int \<Rightarrow> string list" where
  "enumerated_videos env max_videos =
     (case scan_channel_outcome env of
        Inl e \<Rightarrow> []
      | Inr None \<Rightarrow> []
      | Inr (Some p) \<Rightarrow>
          (case get_video_urls_outcome env of
             Inl e \<Rightarrow> []
           | Inr urls \<Rightarrow> limit_videos max_videos urls))"

definition videos_processed :: "run_env \<Rightarrow> string \<Rightarrow> int \<Rightarrow> nat" where
  "videos_processed env the_url max_videos =
     (if mkdir_outcome env = None \<and> is_channel the_url
      then length (enumerated_videos (channel_outcomes env) max_videos)
      else 0)"

definition job_view :: "JobStatus \<Rightarrow> string \<times> int \<times> pydict option \<times> string option" where
  "job_view job = (status job, progress job, results job, error job)"

definition job_summary :: "JobStatus \<Rightarrow> string \<times> int \<times> bool \<times> string option" where
  "job_summary job = (status job, progress job, results job = None, error job)"

definition seen :: "runner_state \<Rightarrow> (string \<times> int) list" where
  "seen st = map (\<lambda>job. (status job, progress job)) (snapshots st)"

text \<open>
  A record is terminal in the states \<open>completed\<close> and \<open>failed\<close>; the payloads of a record are
  its \<open>results\<close> and its \<open>error\<close>.
\<close>

definition terminal :: "JobStatus \<Rightarrow> bool" where
  "terminal job = (status job = ''completed'' \<or> status job = ''failed'')"

definition exactly_one_payload :: "JobStatus \<Rightarrow> bool" where
  "exactly_one_payload job = ((results job = None) \<noteq> (error job = None))"

section \<open>Concrete jobs\<close>

text \<open>
  A registry holding one fresh job, an environment in which every collaborator answers,
  and a channel of \<open>n\<close> videos each of which downloads and uploads.
\<close>

definition no_files :: summary_env where
  "no_files = \<lparr>listing_outcome = None, audio_files = [], metadata_files = [], text_files = []\<rparr>"

definition example_app_env :: app_env where
  "example_app_env =
     \<lparr>pipeline_init_outcome = Inr fresh_pipeline,
      url_run = run_ok_env,
      summary_outcomes = no_files,
      web_session_timestamp = ''20250101_000000'',
      web_mkdir_outcome = None,
      finished_at = 7\<rparr>"

definition one_job :: runner_state where
  "one_job =
     \<lparr>active_jobs = Map.empty(''job1'' \<mapsto> JobStatus_init ''job1'' ''https://youtu.be/abc'' 0),
      processed_count = 0, snapshots = []\<rparr>"

definition no_options :: options where
  "no_options = \<lparr>opt_filename = None, opt_session_name = None, opt_max_videos = None\<rparr>"

definition channel_of :: "nat \<Rightarrow> channel_env" where
  "channel_of n =
     \<lparr>scan_channel_outcome = Inr (Some ''scan/list.txt''),
      get_video_urls_outcome = Inr (replicate n ''https://www.youtube.com/watch?v=abcdefghijk''),
      video_envs = (\<lambda>i. video_ok),
      summary_write_outcome = None,
      video_list_write_outcome = None\<rparr>"

definition channel_job :: runner_state where
  "channel_job =
     \<lparr>active_jobs = Map.empty(''job1'' \<mapsto> JobStatus_init ''job1'' channel_url_example 0),
      processed_count = 0, snapshots = []\<rparr>"

definition channel_app_env :: "nat \<Rightarrow> app_env" where
  "channel_app_env n = example_app_env\<lparr>url_run := run_ok_env\<lparr>channel_outcomes := channel_of n\<rparr>\<rparr>"

section \<open>app.py: field writes and the registry lock\<close>

text \<open>
  \<open>JobStatus.update\<close> (lines 50--54) is three attribute assignments, and the runner thread
  can be suspended between any two of them.  The status endpoint \<open>get_status\<close>
  (lines 366--380) reads the fields while it holds \<open>job_lock\<close>, so it is kept out exactly
  while the runner holds \<open>job_lock\<close> itself.  \<open>poller_views\<close> lists the records the endpoint
  can read while the runner performs a sequence of actions: the record after each action
  at which the runner does not hold the lock.
\<close>

datatype action =
    Acquire | Release
  | SetStatus string | SetProgress int | SetMessage string

definition update_actions :: "string \<Rightarrow> int \<Rightarrow> string \<Rightarrow> action list" where
  "update_actions st pr msg = [SetStatus st, SetProgress pr, SetMessage msg]"

definition with_job_lock :: "action list \<Rightarrow> action list" where
  "with_job_lock body = Acquire # body @ [Release]"

fun perform :: "action \<Rightarrow> JobStatus \<Rightarrow> JobStatus" where
  "perform Acquire job = job"
| "perform Release job = job"
| "perform (SetStatus st) job = job\<lparr>status := st\<rparr>"
| "perform (SetProgress pr) job = job\<lparr>progress := pr\<rparr>"
| "perform (SetMessage msg) job = job\<lparr>message := msg\<rparr>"

fun lock_after :: "action \<Rightarrow> bool \<Rightarrow> bool" where
  "lock_after Acquire held = True"
| "lock_after Release held = False"
| "lock_after a held = held"

fun poller_views :: "action list \<Rightarrow> bool \<Rightarrow> JobStatus \<Rightarrow> JobStatus list" where
  "poller_views [] held job = []"
| "poller_views (a # as) held job =
     (if lock_after a held then [] else [perform a job])
     @ poller_views as (lock_after a held) (perform a job)"

definition status_reply :: "JobStatus \<Rightarrow> string \<times> int \<times> string" where
  "status_reply job = (status job, progress job, message job)"

text \<open>
  The first update of each runner: \<open>process_youtube_url_background\<close> calls \<open>job.update\<close>
  directly (line 83), \<open>process_channel_background\<close> inside \<open>with job_lock:\<close>
  (lines 209--215).
\<close>

definition youtube_first_update :: "action list" where
  "youtube_first_update = update_actions ''downloading'' 10 ''Iniciando download...''"

definition channel_first_update :: "action list" where
  "channel_first_update =
     with_job_lock (update_actions ''downloading'' 10 ''Iniciando processamento do canal...'')"

section \<open>Environments in which every exception is an \<open>Exception\<close>\<close>

text \<open>
  \<open>catchable e\<close> is \<open>isinstance(e, Exception)\<close>.  A collaborator's answer, an environment or a
  callback is calm when nothing in it raises an exception that is not an \<open>Exception\<close>.
\<close>

fun catchable :: "exn \<Rightarrow> bool" where
  "catchable (Exception e) = True"
| "catchable (BaseException b) = False"

definition calm_outcome :: "exn + 'a \<Rightarrow> bool" where
  "calm_outcome r = (case r of Inl x \<Rightarrow> catchable x | Inr v \<Rightarrow> True)"

definition calm_raise :: "exn option \<Rightarrow> bool" where
  "calm_raise r = (case r of Some x \<Rightarrow> catchable x | None \<Rightarrow> True)"

fun calm_unlink :: "unlink_outcome \<Rightarrow> bool" where
  "calm_unlink (UnlinkRaises x) = catchable x"
| "calm_unlink NotThere = True"
| "calm_unlink Removed = True"

definition calm_upload :: "upload_env \<Rightarrow> bool" where
  "calm_upload ue = (calm_raise (blob_upload ue) \<and> calm_outcome (local_size ue))"

definition calm_video :: "video_env \<Rightarrow> bool" where
  "calm_video ve =
     (calm_outcome (video_info_outcome ve) \<and> calm_outcome (download_outcome ve) \<and>
      calm_outcome (audio_size_outcome ve) \<and> calm_raise (metadata_write_outcome ve) \<and>
      calm_upload (audio_upload ve) \<and> calm_upload (metadata_upload ve) \<and>
      calm_unlink (audio_unlink ve) \<and> calm_unlink (metadata_unlink ve))"

definition calm_channel :: "channel_env \<Rightarrow> bool" where
  "calm_channel env =
     (calm_outcome (scan_channel_outcome env) \<and> calm_outcome (get_video_urls_outcome env) \<and>
      (\<forall>i. calm_video (video_envs env i)) \<and>
      calm_raise (summary_write_outcome env) \<and> calm_raise (video_list_write_outcome env))"

definition calm_run :: "run_env \<Rightarrow> bool" where
  "calm_run env =
     (calm_raise (mkdir_outcome env) \<and> calm_channel (channel_outcomes env) \<and>
      calm_video (video_outcomes env) \<and> calm_raise (results_write_outcome env))"


definition calm_app :: "app_env \<Rightarrow> bool" where
  "calm_app env =
     (calm_outcome (pipeline_init_outcome env) \<and> calm_run (url_run env) \<and>
      calm_raise (listing_outcome (summary_outcomes env)) \<and>
      calm_raise (web_mkdir_outcome env))"






section \<open>Facts about dictionaries\<close>

lemma map_of_dict_set: "map_of (dict_set d k v) = (map_of d)(k \<mapsto> v)"
  by (simp add: dict_set_def update_conv')

lemma dict_get_dict_set:
  "dict_get (dict_set d k v) k' dflt = (if k' = k then v else dict_get d k' dflt)"
  by (simp add: dict_get_def map_of_dict_set)

lemma initial_result_get:
  "dict_get (initial_result vid t u a m n d) ''success'' x = PBool True"
  "dict_get (initial_result vid t u a m n d) ''uploaded_to_gcp'' x = PBool False"
  "dict_get (initial_result vid t u a m n d) ''local_files_cleaned'' x = PBool False"
  "dict_get (initial_result vid t u a m n d) ''audio_path'' x = PStr a"
  "dict_get (initial_result vid t u a m n d) ''metadata_path'' x = PStr m"
  by (simp_all add: initial_result_def dict_get_def)

lemma video_failure_get:
  "dict_get (video_failure u e) ''success'' x = PBool False"
  "dict_get (video_failure u e) ''uploaded_to_gcp'' x = x"
  "dict_get (video_failure u e) ''local_files_cleaned'' x = x"
  by (simp_all add: video_failure_def dict_get_def)

lemmas example_defs =
  example_uploader_def example_pipeline_def upload_accepts_def video_ok_def
  video_cleanup_fails_def example_url_def uploaded_result_def uploaded_log_def

lemmas video_defs =
  download_single_video_def immediate_upload_step_def cleanup_local_files_def
  upload_file_def upload_failed_def upload_success_def is_available_def initial_result_def
  upload_raised_def cleanup_raised_def video_raised_def
  video_failure_def metadata_file_path_def audio_remote_path_def metadata_remote_path_def
  path_join_def path_name_def opt_or_def dict_get_def dict_set_def Let_def

section \<open>The per-video processor: the shape of every run\<close>

lemma upload_file_no_exception:
  "upload_file up ue local_path remote_path \<noteq> Inl (Exception e)"
  by (simp add: upload_file_def upload_raised_def split: option.splits sum.splits exn.splits)

lemma cleanup_no_exception:
  "fst (cleanup_local_files ve a m r) \<noteq> Inl (Exception e)"
  by (simp add: cleanup_local_files_def cleanup_raised_def Let_def
           split: unlink_outcome.splits exn.splits)

lemma upload_step_no_exception:
  "fst (immediate_upload_step self ve a m r) \<noteq> Inl (Exception e)"
proof -
  have c: "\<And>r3 cleaned ev3. cleanup_local_files ve a m r3 = (cleaned, ev3)
             \<Longrightarrow> cleaned \<noteq> Inl (Exception e)"
    using cleanup_no_exception [of ve a m _ e] by (metis fst_conv)
  show ?thesis
    unfolding immediate_upload_step_def Let_def
    by (auto split: sum.splits prod.splits simp: upload_file_no_exception dest: c)
qed

lemma cleanup_cases:
  assumes "cleanup_local_files ve a m r = (Inr r', ev)"
  shows "(r' = r \<and> (ev = [UnlinkFailed a] \<or> ev = [UnlinkFailed m] \<or>
                     ev = [Unlinked a, UnlinkFailed m])) \<or>
         (r' = dict_set r ''local_files_cleaned'' (PBool True) \<and>
          (ev = [] \<or> ev = [Unlinked a] \<or> ev = [Unlinked m] \<or> ev = [Unlinked a, Unlinked m]))"
  using assms unfolding cleanup_local_files_def
  by (auto split: unlink_outcome.splits exn.splits simp: Let_def cleanup_raised_def)

lemma upload_step_cases:
  assumes "immediate_upload_step self ve a m r = (Inr r', ev)"
  shows "(\<exists>ar. r' = r \<and> ev = [UploadReturned a ar False]) \<or>
         (\<exists>ar mr. r' = r \<and> ev = [UploadReturned a ar True, UploadReturned m mr False]) \<or>
         (\<exists>ar mr u1 u2 ev3.
             cleanup_local_files ve a m
               (dict_set (dict_set (dict_set r ''uploaded_to_gcp'' (PBool True))
                  ''gcp_audio_url'' u1) ''gcp_metadata_url'' u2) = (Inr r', ev3) \<and>
             ev = [UploadReturned a ar True, UploadReturned m mr True] @ ev3)"
  using assms unfolding immediate_upload_step_def Let_def
  by (auto split: if_splits prod.splits sum.splits)

lemma dsv_cases:
  assumes run: "download_single_video self ve the_url custom_filename iu = (Inr result, log)"
  shows "(\<exists>e. result = video_failure the_url e \<and>
              (log = [] \<or> (\<exists>a. log = [Downloaded the_url a]))) \<or>
         (\<exists>vid t a m n d. result = initial_result vid t the_url a m n d \<and>
              log = [Downloaded the_url a, MetadataWritten m] \<and>
              \<not> (iu \<and> is_available (gcp_uploader self))) \<or>
         (\<exists>vid t a m n d ev'.
              immediate_upload_step self ve a m (initial_result vid t the_url a m n d)
                = (Inr result, ev') \<and>
              log = [Downloaded the_url a, MetadataWritten m] @ ev' \<and>
              iu \<and> is_available (gcp_uploader self))"
proof (cases "session_dir self")
  case None
  with run show ?thesis by (simp add: download_single_video_def)
next
  case sd: (Some sd)
  show ?thesis
  proof (cases "video_info_outcome ve")
    case (Inl x)
    with run sd show ?thesis
      by (auto simp: download_single_video_def video_raised_def split: exn.splits)
  next
    case info: (Inr info)
    show ?thesis
    proof (cases "download_outcome ve")
      case (Inl x)
      with run sd info show ?thesis
        by (auto simp: download_single_video_def video_raised_def split: exn.splits)
    next
      case dl: (Inr a)
      show ?thesis
      proof (cases "audio_size_outcome ve")
        case (Inl x)
        with run sd info dl show ?thesis
          by (auto simp: download_single_video_def video_raised_def split: exn.splits)
      next
        case sz: (Inr so)
        show ?thesis
        proof (cases "metadata_write_outcome ve")
          case (Some x)
          with run sd info dl sz show ?thesis
            by (auto simp: download_single_video_def video_raised_def split: exn.splits)
        next
          case None
          show ?thesis
          proof (cases "iu \<and> is_available (gcp_uploader self)")
            case False
            with run sd info dl sz None show ?thesis
              by (simp add: download_single_video_def Let_def) blast
          next
            case True
            obtain uploaded ev' where
              step: "immediate_upload_step self ve a (metadata_file_path sd
                       (case info_id info of None \<Rightarrow> ''unknown'' | Some i \<Rightarrow> i))
                       (initial_result (case info_id info of None \<Rightarrow> ''unknown'' | Some i \<Rightarrow> i)
                          (case info_title info of None \<Rightarrow> ''Unknown'' | Some t \<Rightarrow> t) the_url a
                          (metadata_file_path sd
                             (case info_id info of None \<Rightarrow> ''unknown'' | Some i \<Rightarrow> i))
                          (case so of None \<Rightarrow> 0 | Some n \<Rightarrow> n)
                          (case info_duration info of None \<Rightarrow> 0 | Some d \<Rightarrow> d))
                     = (uploaded, ev')"
              by (cases "immediate_upload_step self ve a (metadata_file_path sd
                       (case info_id info of None \<Rightarrow> ''unknown'' | Some i \<Rightarrow> i))
                       (initial_result (case info_id info of None \<Rightarrow> ''unknown'' | Some i \<Rightarrow> i)
                          (case info_title info of None \<Rightarrow> ''Unknown'' | Some t \<Rightarrow> t) the_url a
                          (metadata_file_path sd
                             (case info_id info of None \<Rightarrow> ''unknown'' | Some i \<Rightarrow> i))
                          (case so of None \<Rightarrow> 0 | Some n \<Rightarrow> n)
                          (case info_duration info of None \<Rightarrow> 0 | Some d \<Rightarrow> d))")
            have noexc: "\<And>e. uploaded \<noteq> Inl (Exception e)"
              using upload_step_no_exception step by (metis fst_conv)
            from run sd info dl sz None True step noexc
            have "uploaded = Inr result"
                 "log = [Downloaded the_url a, MetadataWritten (metadata_file_path sd
                       (case info_id info of None \<Rightarrow> ''unknown'' | Some i \<Rightarrow> i))] @ ev'"
              by (auto simp: download_single_video_def Let_def video_raised_def
                       split: sum.splits exn.splits)
            with step True show ?thesis by blast
          qed
        qed
      qed
    qed
  qed
qed

lemma dsv_upload_shapes:
  assumes run: "download_single_video self ve the_url custom_filename True = (Inr result, log)"
      and avail: "is_available (gcp_uploader self)"
  shows "\<exists>vid t a m n d ar mr u1 u2.
     (\<exists>e. result = video_failure the_url e \<and> (log = [] \<or> log = [Downloaded the_url a])) \<or>
     (result = initial_result vid t the_url a m n d \<and>
        (log = [Downloaded the_url a, MetadataWritten m, UploadReturned a ar False] \<or>
         log = [Downloaded the_url a, MetadataWritten m, UploadReturned a ar True,
                UploadReturned m mr False])) \<or>
     (result = dict_set (dict_set (dict_set (initial_result vid t the_url a m n d)
                  ''uploaded_to_gcp'' (PBool True)) ''gcp_audio_url'' u1) ''gcp_metadata_url'' u2 \<and>
        (\<exists>ev. log = [Downloaded the_url a, MetadataWritten m, UploadReturned a ar True,
                UploadReturned m mr True] @ ev \<and>
           (ev = [UnlinkFailed a] \<or> ev = [UnlinkFailed m] \<or> ev = [Unlinked a, UnlinkFailed m]))) \<or>
     (result = dict_set (dict_set (dict_set (dict_set (initial_result vid t the_url a m n d)
                  ''uploaded_to_gcp'' (PBool True)) ''gcp_audio_url'' u1) ''gcp_metadata_url'' u2)
                  ''local_files_cleaned'' (PBool True) \<and>
        (\<exists>ev. log = [Downloaded the_url a, MetadataWritten m, UploadReturned a ar True,
                UploadReturned m mr True] @ ev \<and>
           (ev = [] \<or> ev = [Unlinked a] \<or> ev = [Unlinked m] \<or> ev = [Unlinked a, Unlinked m])))"
  using dsv_cases [OF run] avail
  apply (elim disjE exE conjE)
     apply blast
    apply blast
   apply simp
  apply (drule upload_step_cases)
  apply (elim disjE exE conjE)
    apply (simp, blast)
   apply (simp, blast)
  apply (drule cleanup_cases)
  apply (elim disjE exE conjE)
  apply (simp, blast)+
  done

lemma run_cleanup_fails:
  "download_single_video example_pipeline video_cleanup_fails example_url None True =
     (Inr (uploaded_result False),
      uploaded_log @ [Unlinked ''out/s1/downloads/abc.flac'',
                      UnlinkFailed ''out/s1/metadata/abc_metadata.json''])"
  by (simp add: example_defs video_defs)

lemma run_ok:
  "download_single_video example_pipeline video_ok example_url None True =
     (Inr (uploaded_result True),
      uploaded_log @ [Unlinked ''out/s1/downloads/abc.flac'',
                      Unlinked ''out/s1/metadata/abc_metadata.json''])"
  by (simp add: example_defs video_defs)

lemma catchable_cases: "catchable x \<Longrightarrow> \<exists>e. x = Exception e"
  by (cases x) simp_all

lemma upload_file_calm:
  assumes "calm_upload ue"
  shows "\<exists>r. upload_file up ue local_path remote_path = Inr r"
  using assms
  by (auto simp: upload_file_def upload_raised_def calm_upload_def calm_raise_def
                 calm_outcome_def
           split: option.splits sum.splits exn.splits)

lemma cleanup_calm:
  assumes "calm_unlink (audio_unlink ve)" and "calm_unlink (metadata_unlink ve)"
  shows "\<exists>r'. fst (cleanup_local_files ve a m r) = Inr r'"
  using assms
  by (auto simp: cleanup_local_files_def cleanup_raised_def Let_def
           split: unlink_outcome.splits exn.splits)

lemma upload_step_calm:
  assumes "calm_video ve"
  shows "\<exists>r'. fst (immediate_upload_step self ve a m r) = Inr r'"
proof -
  from assms have ua: "calm_upload (audio_upload ve)" and um: "calm_upload (metadata_upload ve)"
    and ca: "calm_unlink (audio_unlink ve)" and cm: "calm_unlink (metadata_unlink ve)"
    by (simp_all add: calm_video_def)
  have c: "\<And>r3 cleaned ev3. cleanup_local_files ve a m r3 = (cleaned, ev3)
             \<Longrightarrow> \<exists>r'. cleaned = Inr r'"
    using cleanup_calm [OF ca cm] by (metis fst_conv)
  obtain r1 where u1: "upload_file (gcp_uploader self) (audio_upload ve) a
        (audio_remote_path (opt_or (current_session self) ''unknown_session'') a) = Inr r1"
    using upload_file_calm [OF ua] by blast
  obtain r2 where u2: "upload_file (gcp_uploader self) (metadata_upload ve) m
        (metadata_remote_path (opt_or (current_session self) ''unknown_session'') m) = Inr r2"
    using upload_file_calm [OF um] by blast
  show ?thesis
    unfolding immediate_upload_step_def Let_def
    by (auto simp: u1 u2 split: prod.splits dest: c)
qed

lemma dsv_calm:
  assumes calm: "calm_video ve" and sess: "session_dir self = Some sd"
  shows "\<exists>result. fst (download_single_video self ve the_url custom_filename iu) = Inr result"
proof -
  have step: "\<And>a m r uploaded ev'. immediate_upload_step self ve a m r = (uploaded, ev')
                \<Longrightarrow> \<exists>r'. uploaded = Inr r'"
    using upload_step_calm [OF calm] by (metis fst_conv)
  from calm have "calm_outcome (video_info_outcome ve)" "calm_outcome (download_outcome ve)"
      "calm_outcome (audio_size_outcome ve)" "calm_raise (metadata_write_outcome ve)"
    by (simp_all add: calm_video_def)
  then show ?thesis
    unfolding download_single_video_def Let_def
    using sess
    by (auto simp: video_raised_def calm_outcome_def calm_raise_def
             split: sum.splits option.splits exn.splits prod.splits dest: step)
qed


section \<open>Claims\<close>

text \<open>
  C1.  In a single-video run with immediate upload requested and the object store
  available: (1) whenever the log holds a deletion of a path \<open>p\<close>, done or attempted, \<open>p\<close>
  is the downloaded audio file or the metadata sidecar, and both \<open>upload_file\<close> calls had
  returned success before the first attempt to delete \<open>p\<close>; (2) \<open>uploaded_to_gcp\<close> is
  true only when both uploads returned success; (3) when a deletion raised, the result
  still has \<open>success\<close> and \<open>uploaded_to_gcp\<close> true and \<open>local_files_cleaned\<close> false.
\<close>

theorem download_single_video_deletes_only_after_uploads:
  assumes avail: "is_available (gcp_uploader self)"
      and run: "download_single_video self ve the_url custom_filename True = (Inr result, log)"
  shows "((Unlinked p \<in> set log \<or> UnlinkFailed p \<in> set log) \<longrightarrow>
            (\<exists>audio_path metadata_file a_remote m_remote.
               (p = audio_path \<or> p = metadata_file) \<and>
               Downloaded the_url audio_path \<in> set log \<and>
               MetadataWritten metadata_file \<in> set log \<and>
               UploadReturned audio_path a_remote True \<in> set (events_before_deletion p log) \<and>
               UploadReturned metadata_file m_remote True \<in> set (events_before_deletion p log)))
       \<and> (dict_get result ''uploaded_to_gcp'' PNone = PBool True \<longrightarrow>
            (\<exists>audio_path metadata_file a_remote m_remote.
               Downloaded the_url audio_path \<in> set log \<and>
               MetadataWritten metadata_file \<in> set log \<and>
               UploadReturned audio_path a_remote True \<in> set log \<and>
               UploadReturned metadata_file m_remote True \<in> set log))
       \<and> (UnlinkFailed p \<in> set log \<longrightarrow>
            dict_get result ''success'' PNone = PBool True \<and>
            dict_get result ''uploaded_to_gcp'' PNone = PBool True \<and>
            dict_get result ''local_files_cleaned'' PNone = PBool False)"
proof -
  from dsv_upload_shapes [OF run avail]
  obtain vid t a m n d ar mr u1 u2 where shape:
    "(\<exists>e. result = video_failure the_url e \<and> (log = [] \<or> log = [Downloaded the_url a])) \<or>
     (result = initial_result vid t the_url a m n d \<and>
        (log = [Downloaded the_url a, MetadataWritten m, UploadReturned a ar False] \<or>
         log = [Downloaded the_url a, MetadataWritten m, UploadReturned a ar True,
                UploadReturned m mr False])) \<or>
     (result = dict_set (dict_set (dict_set (initial_result vid t the_url a m n d)
                  ''uploaded_to_gcp'' (PBool True)) ''gcp_audio_url'' u1) ''gcp_metadata_url'' u2 \<and>
        (\<exists>ev. log = [Downloaded the_url a, MetadataWritten m, UploadReturned a ar True,
                UploadReturned m mr True] @ ev \<and>
           (ev = [UnlinkFailed a] \<or> ev = [UnlinkFailed m] \<or> ev = [Unlinked a, UnlinkFailed m]))) \<or>
     (result = dict_set (dict_set (dict_set (dict_set (initial_result vid t the_url a m n d)
                  ''uploaded_to_gcp'' (PBool True)) ''gcp_audio_url'' u1) ''gcp_metadata_url'' u2)
                  ''local_files_cleaned'' (PBool True) \<and>
        (\<exists>ev. log = [Downloaded the_url a, MetadataWritten m, UploadReturned a ar True,
                UploadReturned m mr True] @ ev \<and>
           (ev = [] \<or> ev = [Unlinked a] \<or> ev = [Unlinked m] \<or> ev = [Unlinked a, Unlinked m])))"
    by blast
  have order: "(Unlinked p \<in> set log \<or> UnlinkFailed p \<in> set log) \<longrightarrow>
            (\<exists>audio_path metadata_file a_remote m_remote.
               (p = audio_path \<or> p = metadata_file) \<and>
               Downloaded the_url audio_path \<in> set log \<and>
               MetadataWritten metadata_file \<in> set log \<and>
               UploadReturned audio_path a_remote True \<in> set (events_before_deletion p log) \<and>
               UploadReturned metadata_file m_remote True \<in> set (events_before_deletion p log))"
    apply (rule impI)
    apply (rule exI [of _ a], rule exI [of _ m], rule exI [of _ ar], rule exI [of _ mr])
    using shape
    apply (elim disjE exE conjE)
    apply (simp_all add: events_before_deletion_def)
    done
  have flag: "dict_get result ''uploaded_to_gcp'' PNone = PBool True \<longrightarrow>
            (\<exists>audio_path metadata_file a_remote m_remote.
               Downloaded the_url audio_path \<in> set log \<and>
               MetadataWritten metadata_file \<in> set log \<and>
               UploadReturned audio_path a_remote True \<in> set log \<and>
               UploadReturned metadata_file m_remote True \<in> set log)"
    using shape
    apply (elim disjE exE conjE)
    apply (simp_all add: dict_get_dict_set initial_result_get video_failure_get)
    apply blast+
    done
  have failed: "UnlinkFailed p \<in> set log \<longrightarrow>
            dict_get result ''success'' PNone = PBool True \<and>
            dict_get result ''uploaded_to_gcp'' PNone = PBool True \<and>
            dict_get result ''local_files_cleaned'' PNone = PBool False"
    using shape
    apply (elim disjE exE conjE)
    apply (simp_all add: dict_get_dict_set initial_result_get video_failure_get)
    done
  from order flag failed show ?thesis by blast
qed

theorem download_single_video_deletes_only_after_uploads_witness:
  "is_available (gcp_uploader example_pipeline) \<and>
   download_single_video example_pipeline video_cleanup_fails example_url None True =
     (Inr (uploaded_result False),
      uploaded_log @ [Unlinked ''out/s1/downloads/abc.flac'',
                      UnlinkFailed ''out/s1/metadata/abc_metadata.json'']) \<and>
   UnlinkFailed ''out/s1/metadata/abc_metadata.json''
     \<in> set (uploaded_log @ [Unlinked ''out/s1/downloads/abc.flac'',
                             UnlinkFailed ''out/s1/metadata/abc_metadata.json'']) \<and>
   dict_get (uploaded_result False) ''success'' PNone = PBool True \<and>
   dict_get (uploaded_result False) ''uploaded_to_gcp'' PNone = PBool True \<and>
   dict_get (uploaded_result False) ''local_files_cleaned'' PNone = PBool False \<and>
   (\<exists>audio_path metadata_file a_remote m_remote.
      Downloaded example_url audio_path \<in> set uploaded_log \<and>
      MetadataWritten metadata_file \<in> set uploaded_log \<and>
      UploadReturned audio_path a_remote True \<in> set uploaded_log \<and>
      UploadReturned metadata_file m_remote True \<in> set uploaded_log)"
proof -
  have avail: "is_available (gcp_uploader example_pipeline)"
    by (simp add: example_defs is_available_def)
  have failed: "UnlinkFailed ''out/s1/metadata/abc_metadata.json''
     \<in> set (uploaded_log @ [Unlinked ''out/s1/downloads/abc.flac'',
                             UnlinkFailed ''out/s1/metadata/abc_metadata.json''])"
    by simp
  have before: "events_before_deletion ''out/s1/metadata/abc_metadata.json''
          (uploaded_log @ [Unlinked ''out/s1/downloads/abc.flac'',
                           UnlinkFailed ''out/s1/metadata/abc_metadata.json''])
        = uploaded_log @ [Unlinked ''out/s1/downloads/abc.flac'']"
    by (simp add: events_before_deletion_def uploaded_log_def)
  from download_single_video_deletes_only_after_uploads
         [OF avail run_cleanup_fails, of "''out/s1/metadata/abc_metadata.json''"] failed
  have "dict_get (uploaded_result False) ''success'' PNone = PBool True \<and>
        dict_get (uploaded_result False) ''uploaded_to_gcp'' PNone = PBool True \<and>
        dict_get (uploaded_result False) ''local_files_cleaned'' PNone = PBool False"
    and "\<exists>audio_path metadata_file a_remote m_remote.
           Downloaded example_url audio_path \<in> set (uploaded_log @ [Unlinked ''out/s1/downloads/abc.flac'', UnlinkFailed ''out/s1/metadata/abc_metadata.json'']) \<and>
           MetadataWritten metadata_file \<in> set (uploaded_log @ [Unlinked ''out/s1/downloads/abc.flac'', UnlinkFailed ''out/s1/metadata/abc_metadata.json'']) \<and>
           UploadReturned audio_path a_remote True \<in> set (uploaded_log @ [Unlinked ''out/s1/downloads/abc.flac'', UnlinkFailed ''out/s1/metadata/abc_metadata.json'']) \<and>
           UploadReturned metadata_file m_remote True \<in> set (uploaded_log @ [Unlinked ''out/s1/downloads/abc.flac'', UnlinkFailed ''out/s1/metadata/abc_metadata.json''])"
    by blast+
  then show ?thesis using avail run_cleanup_fails failed by simp
qed

lemma dsv_success_shapes:
  assumes run: "download_single_video self ve the_url custom_filename iu = (Inr result, log)"
      and ok: "truthy (dict_get result ''success'' (PBool False))"
  shows "\<exists>vid t a m n d ev. log = [Downloaded the_url a, MetadataWritten m] @ ev \<and>
      (result = initial_result vid t the_url a m n d \<or>
       (\<exists>u1 u2. result = dict_set (dict_set (dict_set (initial_result vid t the_url a m n d)
                  ''uploaded_to_gcp'' (PBool True)) ''gcp_audio_url'' u1) ''gcp_metadata_url'' u2) \<or>
       (\<exists>u1 u2. result = dict_set (dict_set (dict_set (dict_set (initial_result vid t the_url a m n d)
                  ''uploaded_to_gcp'' (PBool True)) ''gcp_audio_url'' u1) ''gcp_metadata_url'' u2)
                  ''local_files_cleaned'' (PBool True)))"
  using dsv_cases [OF run] ok
  apply (elim disjE exE conjE)
     apply (simp add: video_failure_get)
    apply (simp add: video_failure_get)
   apply (simp, blast)
  apply (drule upload_step_cases)
  apply (elim disjE exE conjE)
    apply (simp, blast)
   apply (simp, blast)
  apply (drule cleanup_cases)
  apply (elim disjE exE conjE)
  apply (simp, blast)+
  done

text \<open>
  C9, as stated: after a successful run whose local cleanup occurred
  (\<open>local_files_cleaned\<close> true) the fields \<open>audio_path\<close> and \<open>metadata_path\<close> of the
  result are cleared.  The run below uploads both files and deletes both, and its result
  still carries the two paths.
\<close>

theorem cleaned_result_keeps_paths_counterexample:
  "download_single_video example_pipeline video_ok example_url None True =
     (Inr (uploaded_result True),
      uploaded_log @ [Unlinked ''out/s1/downloads/abc.flac'',
                      Unlinked ''out/s1/metadata/abc_metadata.json'']) \<and>
   dict_get (uploaded_result True) ''success'' PNone = PBool True \<and>
   dict_get (uploaded_result True) ''local_files_cleaned'' PNone = PBool True \<and>
   \<not> field_cleared (uploaded_result True) ''audio_path'' \<and>
   \<not> field_cleared (uploaded_result True) ''metadata_path''"
  using run_ok by (simp add: uploaded_result_def dict_get_def field_cleared_def)

text \<open>
  C9, amended: the result of every successful run, cleaned or not, holds in
  \<open>audio_path\<close> and \<open>metadata_path\<close> the path of the audio file that was downloaded and
  the path of the sidecar that was written; the code never clears them.
\<close>

theorem video_result_keeps_local_paths:
  assumes run: "download_single_video self ve the_url custom_filename iu = (Inr result, log)"
      and ok: "truthy (dict_get result ''success'' (PBool False))"
  shows "\<exists>audio_path metadata_file.
           take 2 log = [Downloaded the_url audio_path, MetadataWritten metadata_file] \<and>
           dict_get result ''audio_path'' PNone = PStr audio_path \<and>
           dict_get result ''metadata_path'' PNone = PStr metadata_file"
  using dsv_success_shapes [OF run ok]
  apply (elim disjE exE conjE)
  apply (simp_all add: dict_get_dict_set initial_result_get)
  done

theorem video_result_keeps_local_paths_witness:
  "download_single_video example_pipeline video_ok example_url None True =
     (Inr (uploaded_result True),
      uploaded_log @ [Unlinked ''out/s1/downloads/abc.flac'',
                      Unlinked ''out/s1/metadata/abc_metadata.json'']) \<and>
   truthy (dict_get (uploaded_result True) ''success'' (PBool False)) \<and>
   dict_get (uploaded_result True) ''local_files_cleaned'' PNone = PBool True \<and>
   dict_get (uploaded_result True) ''audio_path'' PNone = PStr ''out/s1/downloads/abc.flac'' \<and>
   dict_get (uploaded_result True) ''metadata_path'' PNone
     = PStr ''out/s1/metadata/abc_metadata.json''"
proof -
  have ok: "truthy (dict_get (uploaded_result True) ''success'' (PBool False))"
    by (simp add: uploaded_result_def dict_get_def)
  have cleaned: "dict_get (uploaded_result True) ''local_files_cleaned'' PNone = PBool True"
    by (simp add: uploaded_result_def dict_get_def)
  from video_result_keeps_local_paths [OF run_ok ok]
  have "dict_get (uploaded_result True) ''audio_path'' PNone = PStr ''out/s1/downloads/abc.flac'' \<and>
        dict_get (uploaded_result True) ''metadata_path'' PNone
          = PStr ''out/s1/metadata/abc_metadata.json''"
    by (simp add: uploaded_log_def example_url_def)
  with run_ok ok cleaned show ?thesis by blast
qed

section \<open>The channel processor with a callback that returns normally\<close>

lemma callback_calls_append [simp]:
  "callback_calls (xs @ ys) = callback_calls xs @ callback_calls ys"
  by (induction xs rule: callback_calls.induct) auto

lemma dsv_no_callbacks:
  "callback_calls (snd (download_single_video self ve the_url custom_filename iu)) = []"
proof (cases "download_single_video self ve the_url custom_filename iu")
  case (Pair out log)
  show ?thesis
  proof (cases out)
    case (Inl x)
    have c: "\<And>r ev3. callback_calls (snd (cleanup_local_files ve a' m' r)) = []" for a' m'
      by (simp add: cleanup_local_files_def Let_def split: unlink_outcome.splits)
    have u: "\<And>a' m' r. callback_calls (snd (immediate_upload_step self ve a' m' r)) = []"
      unfolding immediate_upload_step_def Let_def
      using c by (auto split: sum.splits prod.splits) (metis snd_conv)+
    from Pair Inl have "callback_calls log = []"
      unfolding download_single_video_def Let_def
      using u by (auto split: option.splits sum.splits if_splits prod.splits) (metis snd_conv)+
    with Pair show ?thesis by simp
  next
    case (Inr result)
    with Pair have run: "download_single_video self ve the_url custom_filename iu = (Inr result, log)"
      by simp
    have "callback_calls log = []"
      using dsv_cases [OF run]
      apply (elim disjE exE conjE)
         apply simp
        apply simp
       apply simp
      apply (drule upload_step_cases)
      apply (elim disjE exE conjE)
        apply simp
       apply simp
      apply (drule cleanup_cases)
      apply (elim disjE exE conjE)
      apply simp_all
      done
    with Pair show ?thesis by simp
  qed
qed

lemma channel_iteration_quiet:
  assumes quiet: "\<forall>u ok idx s. snd (cb u ok n idx s) = None"
      and titled: "titled_outcome outcome"
      and calm: "calm_outcome outcome"
  shows "\<exists>ok dl' fl'.
           channel_iteration outcome (Some cb) u n idx dl fl s =
             (None, dl', fl', fst (cb u ok n idx s), [CallbackInvoked u ok n idx]) \<and>
           length dl' + length fl' = Suc (length dl + length fl)"
proof -
  have inv: "\<And>ok. invoke_callback (Some cb) u ok n idx s =
       (fst (cb u ok n idx s), None, [CallbackInvoked u ok n idx])"
  proof -
    fix ok
    obtain s' r where c: "cb u ok n idx s = (s', r)" by (cases "cb u ok n idx s")
    with quiet have "r = None" by (metis snd_conv)
    with c show "invoke_callback (Some cb) u ok n idx s =
       (fst (cb u ok n idx s), None, [CallbackInvoked u ok n idx])"
      by (simp add: invoke_callback_def)
  qed
  have handler: "\<And>e dl fl. video_exception (Some cb) u n idx e dl fl s =
       (None, dl, fl @ [video_failure u e], fst (cb u (PBool False) n idx s),
        [CallbackInvoked u (PBool False) n idx])"
    by (simp add: video_exception_def inv Let_def)
  have report: "\<And>ok dl fl. report_progress (Some cb) u ok n idx dl fl s =
       (None, dl, fl, fst (cb u ok n idx s), [CallbackInvoked u ok n idx])"
    by (simp add: report_progress_def inv Let_def)
  show ?thesis
  proof (cases outcome)
    case (Inl x)
    with calm obtain e where "x = Exception e"
      using catchable_cases by (auto simp: calm_outcome_def)
    with Inl show ?thesis by (simp add: channel_iteration_def handler)
  next
    case (Inr result)
    show ?thesis
    proof (cases "dict_item result ''success''")
      case (Inl e)
      with Inr show ?thesis by (simp add: channel_iteration_def handler)
    next
      case ok: (Inr ok)
      show ?thesis
      proof (cases "truthy ok")
        case False
        with Inr ok show ?thesis by (simp add: channel_iteration_def report)
      next
        case True
        show ?thesis
        proof (cases "dict_item result ''title''")
          case (Inl e)
          with titled Inr ok True show ?thesis
            by (auto simp: titled_outcome_def dict_item_def split: option.splits)
        next
          case t: (Inr title)
          with Inr ok True show ?thesis by (simp add: channel_iteration_def report Let_def)
        qed
      qed
    qed
  qed
qed

lemma channel_loop_quiet:
  assumes quiet: "\<forall>u ok idx s. snd (cb u ok n idx s) = None"
      and silent: "\<forall>i u. callback_calls (snd (proc i u)) = []"
      and titled: "\<forall>i u. titled_outcome (fst (proc i u))"
      and calm: "\<forall>i u. calm_outcome (fst (proc i u))"
  shows "\<exists>dl' fl' s' log'.
           channel_loop proc (Some cb) n i urls dl fl s log = (None, dl', fl', s', log') \<and>
           length dl' + length fl' = length dl + length fl + length urls \<and>
           map (\<lambda>(u, ok, n, k). (u, n, k)) (callback_calls log') =
             map (\<lambda>(u, ok, n, k). (u, n, k)) (callback_calls log)
             @ map (\<lambda>(k, u). (u, n, k)) (enumerate (Suc i) urls)"
proof (induction urls arbitrary: i dl fl s log)
  case Nil
  then show ?case by simp
next
  case (Cons u rest)
  obtain outcome ev where p: "proc i u = (outcome, ev)" by (cases "proc i u")
  with silent have ev: "callback_calls ev = []" by (metis snd_conv)
  have t: "titled_outcome outcome"
    using titled p by (metis fst_conv)
  have c: "calm_outcome outcome"
    using calm p by (metis fst_conv)
  from channel_iteration_quiet
         [where cb = cb and n = n and outcome = outcome and u = u and idx = "Suc i"
            and dl = dl and fl = fl and s = s, OF quiet t c]
  obtain ok dl1 fl1 where
    it: "channel_iteration outcome (Some cb) u n (Suc i) dl fl s =
           (None, dl1, fl1, fst (cb u ok n (Suc i) s), [CallbackInvoked u ok n (Suc i)])"
    and len: "length dl1 + length fl1 = Suc (length dl + length fl)"
    by blast
  from Cons.IH [of "Suc i" dl1 fl1 "fst (cb u ok n (Suc i) s)"
                   "log @ ev @ [CallbackInvoked u ok n (Suc i)]"]
  obtain dl' fl' s' log' where
    rest: "channel_loop proc (Some cb) n (Suc i) rest dl1 fl1 (fst (cb u ok n (Suc i) s))
             (log @ ev @ [CallbackInvoked u ok n (Suc i)]) = (None, dl', fl', s', log')"
    and len': "length dl' + length fl' = length dl1 + length fl1 + length rest"
    and calls: "map (\<lambda>(u, ok, n, k). (u, n, k)) (callback_calls log') =
             map (\<lambda>(u, ok, n, k). (u, n, k))
               (callback_calls (log @ ev @ [CallbackInvoked u ok n (Suc i)]))
             @ map (\<lambda>(k, u). (u, n, k)) (enumerate (Suc (Suc i)) rest)"
    by blast
  have "channel_loop proc (Some cb) n i (u # rest) dl fl s log = (None, dl', fl', s', log')"
    using p it rest by simp
  moreover have "length dl' + length fl' = length dl + length fl + length (u # rest)"
    using len len' by simp
  moreover have "map (\<lambda>(u, ok, n, k). (u, n, k)) (callback_calls log') =
             map (\<lambda>(u, ok, n, k). (u, n, k)) (callback_calls log)
             @ map (\<lambda>(k, u). (u, n, k)) (enumerate (Suc i) (u # rest))"
    using calls ev by simp
  ultimately show ?case by blast
qed


lemma dsv_titled:
  "titled_outcome (fst (download_single_video self ve the_url custom_filename iu))"
proof (cases "download_single_video self ve the_url custom_filename iu")
  case (Pair out log)
  show ?thesis
  proof (cases out)
    case (Inl e)
    with Pair show ?thesis by (simp add: titled_outcome_def)
  next
    case (Inr result)
    with Pair have run: "download_single_video self ve the_url custom_filename iu = (Inr result, log)"
      by simp
    have init: "\<And>vid t a m n d. map_of (initial_result vid t the_url a m n d) ''title'' \<noteq> None"
      by (simp add: initial_result_def)
    have "titled_outcome (Inr result)"
      using dsv_cases [OF run]
      apply (elim disjE exE conjE)
         apply (simp add: titled_outcome_def video_failure_def)
        apply (simp add: titled_outcome_def video_failure_def)
       apply (simp add: titled_outcome_def init split: option.splits)
      apply (drule upload_step_cases)
      apply (elim disjE exE conjE)
        apply (simp add: titled_outcome_def init split: option.splits)
       apply (simp add: titled_outcome_def init split: option.splits)
      apply (drule cleanup_cases)
      apply (elim disjE exE conjE)
      apply (simp_all add: titled_outcome_def init map_of_dict_set split: option.splits)
      done
    with Pair Inr show ?thesis by simp
  qed
qed

lemma write_channel_files_cases:
  assumes "write_channel_files env sd curl n dl fl = (written, ev)"
  shows "callback_calls ev = [] \<and>
         (case written of
            Inl e \<Rightarrow> True
          | Inr r \<Rightarrow> r = channel_result curl n
                         (path_join (path_join sd ''metadata'') ''channel_summary.json'')
                         (path_join sd ''video_urls.txt'') dl fl)"
  using assms unfolding write_channel_files_def Let_def
  by (auto split: option.splits)

lemma channel_failure_get:
  "dict_get (channel_failure e) ''success'' x = PBool False"
  by (simp add: channel_failure_def dict_get_def)

lemma download_channel_videos_quiet_callback:
  assumes quiet: "\<forall>u ok n idx s. snd (cb u ok n idx s) = None"
      and calm: "\<forall>i. calm_video (video_envs env i)"
      and run: "download_channel_videos self env curl max_videos (Some cb) s = (Inr result, s', log)"
      and ok: "truthy (dict_get result ''success'' (PBool False))"
  shows "\<exists>urls dl fl sf lf.
           get_video_urls_outcome env = Inr urls \<and>
           result = channel_result curl (length (limit_videos max_videos urls)) sf lf dl fl \<and>
           length dl + length fl = length (limit_videos max_videos urls) \<and>
           map (\<lambda>(u, ok, n, k). (u, n, k)) (callback_calls log) =
             map (\<lambda>(k, u). (u, length (limit_videos max_videos urls), k))
               (enumerate 1 (limit_videos max_videos urls))"
proof (cases "session_dir self")
  case None
  with run show ?thesis
    by (simp add: download_channel_videos_def download_channel_videos_with_def)
next
  case sd: (Some sd)
  show ?thesis
  proof (cases "scan_channel_outcome env")
    case (Inl x)
    with run sd ok show ?thesis
      by (auto simp: download_channel_videos_def download_channel_videos_with_def
                     channel_failure_get channel_raised_def split: exn.splits)
  next
    case scan: (Inr p)
    show ?thesis
    proof (cases p)
      case None
      with run sd ok scan show ?thesis
        by (auto simp: download_channel_videos_def download_channel_videos_with_def
                       channel_failure_get)
    next
      case path: (Some video_list_path)
      show ?thesis
      proof (cases "get_video_urls_outcome env")
        case (Inl x)
        with run sd ok scan path show ?thesis
          by (auto simp: download_channel_videos_def download_channel_videos_with_def
                         channel_failure_get channel_raised_def split: exn.splits)
      next
        case urls: (Inr urls)
        show ?thesis
        proof (cases "urls = []")
          case True
          with run sd ok scan path urls show ?thesis
            by (auto simp: download_channel_videos_def download_channel_videos_with_def
                           channel_failure_get)
        next
          case False
          let ?vs = "limit_videos max_videos urls"
          let ?proc = "\<lambda>i video_url. download_single_video self (video_envs env i) video_url None True"
          have q: "\<forall>u ok idx s. snd (cb u ok (length ?vs) idx s) = None"
            using quiet by blast
          have silent: "\<forall>i u. callback_calls (snd (?proc i u)) = []"
            by (simp add: dsv_no_callbacks)
          have titled: "\<forall>i u. titled_outcome (fst (?proc i u))"
            by (simp add: dsv_titled)
          have calmp: "\<forall>i u. calm_outcome (fst (?proc i u))"
          proof (intro allI)
            fix i u
            from dsv_calm [OF calm [rule_format, of i] sd, of u None True]
            show "calm_outcome (fst (?proc i u))" by (auto simp: calm_outcome_def)
          qed
          from channel_loop_quiet
                [where cb = cb and n = "length ?vs" and proc = ?proc and i = 0 and urls = ?vs
                   and dl = "[]" and fl = "[]" and s = s and log = "[]",
                 OF q silent titled calmp]
          obtain dl fl s1 log1 where
            loop: "channel_loop ?proc (Some cb) (length ?vs) 0 ?vs [] [] s [] = (None, dl, fl, s1, log1)"
            and len: "length dl + length fl = length ?vs"
            and calls: "map (\<lambda>(u, ok, n, k). (u, n, k)) (callback_calls log1) =
                         map (\<lambda>(k, u). (u, length ?vs, k)) (enumerate (Suc 0) ?vs)"
            by auto
          obtain written ev where
            w: "write_channel_files env sd curl (length ?vs) dl fl = (written, ev)"
            by (cases "write_channel_files env sd curl (length ?vs) dl fl")
          from write_channel_files_cases [OF w]
          have ev: "callback_calls ev = []"
            and wr: "case written of Inl e \<Rightarrow> True
                     | Inr r \<Rightarrow> r = channel_result curl (length ?vs)
                         (path_join (path_join sd ''metadata'') ''channel_summary.json'')
                         (path_join sd ''video_urls.txt'') dl fl"
            by blast+
          show ?thesis
          proof (cases written)
            case (Inl x)
            with run sd scan path urls False loop w have "\<exists>e. result = channel_failure e"
              by (auto simp: download_channel_videos_def download_channel_videos_with_def Let_def
                             channel_raised_def split: exn.splits)
            with ok show ?thesis by (auto simp: channel_failure_get)
          next
            case (Inr r)
            with run sd scan path urls False loop w have "result = r" and "log = log1 @ ev"
              by (simp_all add: download_channel_videos_def download_channel_videos_with_def
                                Let_def)
            with wr Inr have "result = channel_result curl (length ?vs)
                         (path_join (path_join sd ''metadata'') ''channel_summary.json'')
                         (path_join sd ''video_urls.txt'') dl fl" and "log = log1 @ ev"
              by auto
            with urls len calls ev show ?thesis by auto
          qed
        qed
      qed
    qed
  qed
qed

section \<open>The channel processor with a callback that raises\<close>

lemmas channel_defs =
  download_channel_videos_def download_channel_videos_with_def channel_raised_def
  channel_iteration_def report_progress_def video_exception_def invoke_callback_def
  write_channel_files_def channel_result_def channel_summary_def channel_failure_def
  limit_videos_def py_slice_to_def dict_item_def

lemma run_callback_raises:
  "download_channel_videos example_pipeline one_video_channel channel_url_example 2500
      (Some raise_on_success) () =
     (Inr (channel_result channel_url_example 1 ''out/s1/metadata/channel_summary.json''
             ''out/s1/video_urls.txt'' [uploaded_result True]
             [video_failure ''https://youtu.be/abc'' ''callback failed'']),
      (),
      uploaded_log @
      [Unlinked ''out/s1/downloads/abc.flac'', Unlinked ''out/s1/metadata/abc_metadata.json'',
       CallbackInvoked ''https://youtu.be/abc'' (PBool True) 1 1,
       CallbackInvoked ''https://youtu.be/abc'' (PBool False) 1 1,
       JsonWritten ''out/s1/metadata/channel_summary.json''
         (channel_summary channel_url_example 1 [uploaded_result True]
            [video_failure ''https://youtu.be/abc'' ''callback failed'']),
       FileWritten ''out/s1/video_urls.txt''])"
  by (simp add: example_defs video_defs channel_defs one_video_channel_def
        channel_url_example_def raise_on_success_def)

text \<open>
  C3 at a failing input.  A channel of one video, which downloads, uploads and is cleaned
  up; the caller's progress callback raises when told of the success.  The video has
  already been appended to \<open>downloaded_videos\<close> when the handler of the loop body
  appends a failure record for it to \<open>failed_videos\<close>: the run returns a Channel
  Result with \<open>total_videos = 1\<close>, \<open>downloaded_count = 1\<close> and \<open>failed_count = 1\<close>,
  and the summary document says \<open>total_videos_found = 1\<close> with the same two counts.
\<close>

theorem channel_counts_exceed_total_when_callback_raises:
  "fst (download_channel_videos example_pipeline one_video_channel channel_url_example 2500
          (Some raise_on_success) ()) =
     Inr (channel_result channel_url_example 1 ''out/s1/metadata/channel_summary.json''
            ''out/s1/video_urls.txt'' [uploaded_result True]
            [video_failure ''https://youtu.be/abc'' ''callback failed'']) \<and>
   map (\<lambda>k. dict_get (channel_result channel_url_example 1
                          ''out/s1/metadata/channel_summary.json'' ''out/s1/video_urls.txt''
                          [uploaded_result True]
                          [video_failure ''https://youtu.be/abc'' ''callback failed'']) k PNone)
       [''success'', ''total_videos'', ''downloaded_count'', ''failed_count'']
     = [PBool True, PInt 1, PInt 1, PInt 1] \<and>
   map (\<lambda>k. dict_get (channel_summary channel_url_example 1 [uploaded_result True]
                          [video_failure ''https://youtu.be/abc'' ''callback failed'']) k PNone)
       [''total_videos_found'', ''downloaded_count'', ''failed_count'']
     = [PInt 1, PInt 1, PInt 1]"
  using run_callback_raises
  by (simp add: channel_result_def channel_summary_def dict_get_def)

text \<open>
  C8 at the same failing input: the callback is invoked twice for the one video, both
  times with index 1, first with the success flag true and then, from the handler, with
  false.
\<close>

theorem callback_invoked_twice_when_it_raises:
  "callback_calls (snd (snd (download_channel_videos example_pipeline one_video_channel
                               channel_url_example 2500 (Some raise_on_success) ()))) =
     [(''https://youtu.be/abc'', PBool True, 1, 1),
      (''https://youtu.be/abc'', PBool False, 1, 1)]"
  using run_callback_raises by (simp add: uploaded_log_def)

section \<open>The job runners: what a status poller can read\<close>

lemma channel_loop_quiet_state:
  assumes quiet: "\<forall>u ok idx s. snd (cb u ok n idx s) = None"
      and silent: "\<forall>i u. callback_calls (snd (proc i u)) = []"
      and calm: "\<forall>i u. calm_outcome (fst (proc i u))"
  shows "\<exists>dl' fl' s' new.
           channel_loop proc (Some cb) n i urls dl fl s log = (None, dl', fl', s', log @ new) \<and>
           s' = foldl (apply_callback cb) s (callback_calls new) \<and>
           map call_args (callback_calls new) =
             map (\<lambda>(k, u). (u, n, k)) (enumerate (Suc i) urls)"
proof (induction urls arbitrary: i dl fl s log)
  case Nil
  have "channel_loop proc (Some cb) n i [] dl fl s log = (None, dl, fl, s, log @ [])" by simp
  then show ?case by force
next
  case (Cons u rest)
  obtain outcome ev where p: "proc i u = (outcome, ev)" by (cases "proc i u")
  with silent have ev: "callback_calls ev = []" by (metis snd_conv)
  have inv: "\<And>ok. invoke_callback (Some cb) u ok n (Suc i) s =
       (fst (cb u ok n (Suc i) s), None, [CallbackInvoked u ok n (Suc i)])"
  proof -
    fix ok
    obtain s' r where c: "cb u ok n (Suc i) s = (s', r)" by (cases "cb u ok n (Suc i) s")
    with quiet have "r = None" by (metis snd_conv)
    with c show "invoke_callback (Some cb) u ok n (Suc i) s =
       (fst (cb u ok n (Suc i) s), None, [CallbackInvoked u ok n (Suc i)])"
      by (simp add: invoke_callback_def)
  qed
  have co: "calm_outcome outcome"
    using calm p by (metis fst_conv)
  have "\<exists>ok dl1 fl1. channel_iteration outcome (Some cb) u n (Suc i) dl fl s =
           (None, dl1, fl1, fst (cb u ok n (Suc i) s), [CallbackInvoked u ok n (Suc i)])"
    using co
    by (auto simp: channel_iteration_def report_progress_def video_exception_def inv Let_def
                   calm_outcome_def
             split: sum.splits exn.splits)
  then obtain ok dl1 fl1 where
    it: "channel_iteration outcome (Some cb) u n (Suc i) dl fl s =
           (None, dl1, fl1, fst (cb u ok n (Suc i) s), [CallbackInvoked u ok n (Suc i)])"
    by blast
  from Cons.IH [of "Suc i" dl1 fl1 "fst (cb u ok n (Suc i) s)"
                   "log @ ev @ [CallbackInvoked u ok n (Suc i)]"]
  obtain dl' fl' s' new where
    rest: "channel_loop proc (Some cb) n (Suc i) rest dl1 fl1 (fst (cb u ok n (Suc i) s))
             (log @ ev @ [CallbackInvoked u ok n (Suc i)])
           = (None, dl', fl', s', (log @ ev @ [CallbackInvoked u ok n (Suc i)]) @ new)"
    and st: "s' = foldl (apply_callback cb) (fst (cb u ok n (Suc i) s)) (callback_calls new)"
    and calls: "map call_args (callback_calls new) =
                 map (\<lambda>(k, u). (u, n, k)) (enumerate (Suc (Suc i)) rest)"
    by blast
  let ?new = "ev @ [CallbackInvoked u ok n (Suc i)] @ new"
  have "channel_loop proc (Some cb) n i (u # rest) dl fl s log = (None, dl', fl', s', log @ ?new)"
    using p it rest by simp
  moreover have "s' = foldl (apply_callback cb) s (callback_calls ?new)"
    using st ev by (simp add: apply_callback_def)
  moreover have "map call_args (callback_calls ?new) =
             map (\<lambda>(k, u). (u, n, k)) (enumerate (Suc i) (u # rest))"
    using calls ev by (simp add: call_args_def)
  ultimately show ?case by blast
qed

lemma write_channel_files_calm:
  assumes "calm_raise (summary_write_outcome env)" and "calm_raise (video_list_write_outcome env)"
      and "write_channel_files env sd curl n dl fl = (Inl x, ev)"
  shows "\<exists>e. x = Exception e"
  using assms unfolding write_channel_files_def Let_def
  by (cases x) (auto simp: calm_raise_def split: option.splits)

lemma download_channel_videos_state:
  assumes quiet: "\<forall>u ok n idx s. 0 < n \<longrightarrow> snd (cb u ok n idx s) = None"
      and sess: "session_dir self = Some sd"
      and calm: "calm_channel env"
  shows "\<exists>result s' log.
           download_channel_videos self env curl max_videos (Some cb) s = (Inr result, s', log) \<and>
           s' = foldl (apply_callback cb) s (callback_calls log) \<and>
           map call_args (callback_calls log) =
             map (\<lambda>(k, u). (u, length (enumerated_videos env max_videos), k))
               (enumerate 1 (enumerated_videos env max_videos)) \<and>
           (enumerated_videos env max_videos = [] \<longrightarrow>
              \<not> truthy (dict_get result ''success'' (PBool False)) \<or>
              (\<exists>urls. get_video_urls_outcome env = Inr urls \<and> urls \<noteq> []))"
proof (cases "scan_channel_outcome env")
  case (Inl x)
  with calm obtain e where "x = Exception e"
    using catchable_cases by (auto simp: calm_channel_def calm_outcome_def)
  with Inl sess show ?thesis
    by (simp add: download_channel_videos_def download_channel_videos_with_def
                  enumerated_videos_def channel_failure_get channel_raised_def)
next
  case scan: (Inr p)
  show ?thesis
  proof (cases p)
    case None
    with sess scan show ?thesis
      by (simp add: download_channel_videos_def download_channel_videos_with_def
                    enumerated_videos_def channel_failure_get)
  next
    case path: (Some video_list_path)
    show ?thesis
    proof (cases "get_video_urls_outcome env")
      case (Inl x)
      with calm obtain e where "x = Exception e"
        using catchable_cases by (auto simp: calm_channel_def calm_outcome_def)
      with Inl sess scan path show ?thesis
        by (simp add: download_channel_videos_def download_channel_videos_with_def
                      enumerated_videos_def channel_failure_get channel_raised_def)
    next
      case urls: (Inr urls)
      have vs: "enumerated_videos env max_videos = limit_videos max_videos urls"
        using scan path urls by (simp add: enumerated_videos_def)
      show ?thesis
      proof (cases "urls = []")
        case True
        with sess scan path urls vs show ?thesis
          by (simp add: download_channel_videos_def download_channel_videos_with_def
                        channel_failure_get limit_videos_def py_slice_to_def)
      next
        case False
        let ?vs = "limit_videos max_videos urls"
        let ?proc = "\<lambda>i video_url. download_single_video self (video_envs env i) video_url None True"
        have "\<exists>dl fl s1 log1.
                 channel_loop ?proc (Some cb) (length ?vs) 0 ?vs [] [] s [] = (None, dl, fl, s1, log1) \<and>
                 s1 = foldl (apply_callback cb) s (callback_calls log1) \<and>
                 map call_args (callback_calls log1) =
                   map (\<lambda>(k, u). (u, length ?vs, k)) (enumerate (Suc 0) ?vs)"
        proof (cases "?vs = []")
          case True
          then show ?thesis by simp
        next
          case nonempty: False
          then have q: "\<forall>u ok idx s. snd (cb u ok (length ?vs) idx s) = None"
            using quiet by simp
          have silent: "\<forall>i u. callback_calls (snd (?proc i u)) = []"
            by (simp add: dsv_no_callbacks)
          have calmp: "\<forall>i u. calm_outcome (fst (?proc i u))"
          proof (intro allI)
            fix i u
            from calm have "calm_video (video_envs env i)" by (simp add: calm_channel_def)
            from dsv_calm [OF this sess, of u None True]
            show "calm_outcome (fst (?proc i u))" by (auto simp: calm_outcome_def)
          qed
          from channel_loop_quiet_state
                [where cb = cb and n = "length ?vs" and proc = ?proc and i = 0 and urls = ?vs
                   and dl = "[]" and fl = "[]" and s = s and log = "[]", OF q silent calmp]
          show ?thesis by auto
        qed
        then obtain dl fl s1 log1 where
          loop: "channel_loop ?proc (Some cb) (length ?vs) 0 ?vs [] [] s [] = (None, dl, fl, s1, log1)"
          and st: "s1 = foldl (apply_callback cb) s (callback_calls log1)"
          and calls: "map call_args (callback_calls log1) =
                       map (\<lambda>(k, u). (u, length ?vs, k)) (enumerate (Suc 0) ?vs)"
          by blast
        obtain written ev where
          w: "write_channel_files env sd curl (length ?vs) dl fl = (written, ev)"
          by (cases "write_channel_files env sd curl (length ?vs) dl fl")
        from write_channel_files_cases [OF w] have ev: "callback_calls ev = []" by blast
        have "\<exists>result. download_channel_videos self env curl max_videos (Some cb) s
                = (Inr result, s1, log1 @ ev)"
        proof (cases written)
          case (Inl x)
          from calm have "calm_raise (summary_write_outcome env)"
              "calm_raise (video_list_write_outcome env)"
            by (simp_all add: calm_channel_def)
          from write_channel_files_calm [OF this w [unfolded Inl]]
          obtain e where "x = Exception e" by blast
          with Inl sess scan path urls False loop w show ?thesis
            by (simp add: download_channel_videos_def download_channel_videos_with_def Let_def
                          channel_raised_def)
        next
          case (Inr r)
          with sess scan path urls False loop w show ?thesis
            by (simp add: download_channel_videos_def download_channel_videos_with_def Let_def)
        qed
        with st calls ev vs urls False show ?thesis by auto
      qed
    qed
  qed
qed

lemma create_session_ok:
  "\<exists>self1 sd. create_session self None ts mk = (self1, mk) \<and> session_dir self1 = Some sd \<and>
              gcp_uploader self1 = gcp_uploader self"
  by (simp add: create_session_def Let_def)

lemma process_url_state:
  assumes quiet: "\<forall>u ok n idx s. 0 < n \<longrightarrow> snd (cb u ok n idx s) = None"
      and calm: "calm_run env"
  shows "\<exists>result self' s' ev.
           process_url self env the_url custom_filename max_videos (Some cb) s
             = (Inr result, self', s', ev) \<and>
           self' = fst (create_session self None (session_timestamp env) (mkdir_outcome env)) \<and>
           s' = foldl (apply_callback cb) s (callback_calls ev) \<and>
           map call_args (callback_calls ev) =
             (if mkdir_outcome env = None \<and> is_channel the_url then
                map (\<lambda>(k, u). (u, length (enumerated_videos (channel_outcomes env) max_videos), k))
                  (enumerate 1 (enumerated_videos (channel_outcomes env) max_videos))
              else [])"
proof -
  from create_session_ok [of self "session_timestamp env" "mkdir_outcome env"]
  obtain self1 sd where
    cs: "create_session self None (session_timestamp env) (mkdir_outcome env)
           = (self1, mkdir_outcome env)"
    and sess: "session_dir self1 = Some sd"
    by blast
  have wr: "results_write_outcome env = None \<or>
            (\<exists>e. results_write_outcome env = Some (Exception e))"
    using calm catchable_cases
    by (cases "results_write_outcome env") (auto simp: calm_run_def calm_raise_def)
  show ?thesis
  proof (cases "mkdir_outcome env")
    case (Some x)
    with calm obtain e where "x = Exception e"
      using catchable_cases by (auto simp: calm_run_def calm_raise_def)
    with Some cs show ?thesis
      by (simp add: process_url_def process_url_with_def process_url_try_with_def Let_def)
  next
    case None
    show ?thesis
    proof (cases "is_channel the_url")
      case True
      from calm have calmc: "calm_channel (channel_outcomes env)" by (simp add: calm_run_def)
      from download_channel_videos_state
             [OF quiet sess calmc, of the_url max_videos s]
      obtain result s' log where
        run: "download_channel_videos self1 (channel_outcomes env) the_url max_videos (Some cb) s
                = (Inr result, s', log)"
        and st: "s' = foldl (apply_callback cb) s (callback_calls log)"
        and calls: "map call_args (callback_calls log) =
               map (\<lambda>(k, u). (u, length (enumerated_videos (channel_outcomes env) max_videos), k))
                 (enumerate 1 (enumerated_videos (channel_outcomes env) max_videos))"
        by blast
      from wr show ?thesis
        using None True cs run st calls
        by (auto simp: process_url_def process_url_with_def process_url_try_with_def Let_def)
    next
      case False
      obtain out ev where
        run: "download_single_video self1 (video_outcomes env) the_url custom_filename True
                = (out, ev)"
        by (cases "download_single_video self1 (video_outcomes env) the_url custom_filename True")
      have ev: "callback_calls ev = []"
        using dsv_no_callbacks [of self1 "video_outcomes env" the_url custom_filename True] run
        by simp
      from calm have "calm_video (video_outcomes env)" by (simp add: calm_run_def)
      from dsv_calm [OF this sess, of the_url custom_filename True] run
      obtain r where out: "out = Inr r" by auto
      from wr show ?thesis
        using None False cs run ev out
        by (auto simp: process_url_def process_url_with_def process_url_try_with_def Let_def
                 split: sum.splits)
    qed
  qed
qed

lemma on_job_registered:
  assumes "active_jobs st jid = Some job"
  shows "on_job jid f st =
           st\<lparr>active_jobs := (active_jobs st)(jid \<mapsto> f job), snapshots := snapshots st @ [f job]\<rparr>"
  using assms by (simp add: on_job_def)

lemma channel_callback_step:
  assumes "active_jobs st jid = Some job" and "0 < n"
  shows "\<exists>msg. channel_progress_callback jid u ok n k st =
           (on_job jid (JobStatus_update ''processing'' (min 90 (ratio_times k n 90)) msg)
              (st\<lparr>processed_count := processed_count st + 1\<rparr>), None)"
  using assms
  apply (simp add: channel_progress_callback_def Let_def)
  apply (rule exI)
  apply (rule refl)
  done

lemma youtube_callback_step:
  assumes "0 < n"
  shows "\<exists>msg. youtube_progress_callback jid u ok n k st =
           (on_job jid (JobStatus_update ''processing'' (min 90 (ratio_times k n 80 + 10)) msg) st,
            None)"
  using assms
  unfolding youtube_progress_callback_def Let_def
  apply (simp only: if_not_P [of "n = 0"] neq0_conv [symmetric] simp_thms fst_conv)
  apply (simp split del: if_split)
  apply (rule exI)
  apply (rule refl)
  done

lemma channel_callback_quiet:
  "\<forall>u ok n idx s. 0 < n \<longrightarrow> snd (channel_progress_callback jid u ok n idx s) = None"
  by (simp add: channel_progress_callback_def Let_def split: option.splits)

lemma youtube_callback_quiet:
  "\<forall>u ok n idx s. 0 < n \<longrightarrow> snd (youtube_progress_callback jid u ok n idx s) = None"
  by (simp add: youtube_progress_callback_def Let_def)

lemma progress_fold:
  assumes step: "\<forall>u ok n k st. 0 < n \<and> active_jobs st jid \<noteq> None \<longrightarrow>
             (\<exists>msg st0. active_jobs st0 = active_jobs st \<and> snapshots st0 = snapshots st \<and>
               fst (cb u ok n k st) = on_job jid (JobStatus_update ''processing'' (P n k) msg) st0)"
      and reg: "active_jobs st jid = Some job"
      and pos: "list_all (\<lambda>c. 0 < fst (snd (snd c))) calls"
  shows "\<exists>job'. active_jobs (foldl (apply_callback cb) st calls) jid = Some job' \<and>
           results job' = results job \<and> error job' = error job \<and>
           status job' = (if calls = [] then status job else ''processing'') \<and>
           map job_view (snapshots (foldl (apply_callback cb) st calls)) =
             map job_view (snapshots st)
             @ map (\<lambda>(u, ok, n, k). (''processing'', P n k, results job, error job)) calls"
  using reg pos
proof (induction calls arbitrary: st job)
  case Nil
  then show ?case by simp
next
  case (Cons c calls)
  obtain u ok n k where c: "c = (u, ok, n, k)" by (cases c)
  with Cons.prems have n: "0 < n" by simp
  from step n Cons.prems(1)
  obtain msg st0 where
    a: "active_jobs st0 = active_jobs st" and sn: "snapshots st0 = snapshots st"
    and f: "fst (cb u ok n k st) = on_job jid (JobStatus_update ''processing'' (P n k) msg) st0"
    by (metis option.distinct(1))
  let ?J = "JobStatus_update ''processing'' (P n k) msg job"
  let ?st1 = "fst (cb u ok n k st)"
  have st1: "?st1 = st0\<lparr>active_jobs := (active_jobs st0)(jid \<mapsto> ?J),
                         snapshots := snapshots st0 @ [?J]\<rparr>"
    using f a Cons.prems(1) by (simp add: on_job_def)
  have reg1: "active_jobs ?st1 jid = Some ?J" by (simp add: st1)
  have pos1: "list_all (\<lambda>c. 0 < fst (snd (snd c))) calls" using Cons.prems(2) by simp
  from Cons.IH [OF reg1 pos1]
  obtain job' where
    r: "active_jobs (foldl (apply_callback cb) ?st1 calls) jid = Some job'"
    and p: "results job' = results ?J" "error job' = error ?J"
           "status job' = (if calls = [] then status ?J else ''processing'')"
    and v: "map job_view (snapshots (foldl (apply_callback cb) ?st1 calls)) =
             map job_view (snapshots ?st1)
             @ map (\<lambda>(u, ok, n, k). (''processing'', P n k, results ?J, error ?J)) calls"
    by blast
  have fold: "foldl (apply_callback cb) st (c # calls) = foldl (apply_callback cb) ?st1 calls"
    by (simp add: c apply_callback_def)
  have J: "results ?J = results job" "error ?J = error job" "status ?J = ''processing''"
          "progress ?J = P n k"
    by (simp_all add: JobStatus_update_def)
  have sn1: "map job_view (snapshots ?st1)
               = map job_view (snapshots st) @ [(''processing'', P n k, results job, error job)]"
    by (simp add: st1 sn job_view_def JobStatus_update_def)
  show ?case
    unfolding fold
    using r p v J sn1 by (auto simp: c)
qed

lemma channel_job_failed_registered:
  assumes "active_jobs st jid = Some job"
  shows "\<exists>jobf. snd (channel_job_failed jid e st) =
            st\<lparr>active_jobs := (active_jobs st)(jid \<mapsto> jobf), snapshots := snapshots st @ [jobf]\<rparr> \<and>
          job_view jobf = (''failed'', 0, results job, Some e)"
proof -
  let ?jobf = "(JobStatus_update ''failed'' 0 (''Erro: '' @ e) job)\<lparr>error := Some e\<rparr>"
  have "snd (channel_job_failed jid e st) =
            st\<lparr>active_jobs := (active_jobs st)(jid \<mapsto> ?jobf), snapshots := snapshots st @ [?jobf]\<rparr>"
    using assms by (simp add: channel_job_failed_def on_job_def)
  moreover have "job_view ?jobf = (''failed'', 0, results job, Some e)"
    by (simp add: job_view_def JobStatus_update_def)
  ultimately show ?thesis by blast
qed

lemma summary_raised:
  assumes "get_download_summary p senv = Inl x" and "calm_raise (listing_outcome senv)"
  shows "\<exists>e. x = Exception e"
  using assms catchable_cases
  by (auto simp: get_download_summary_def calm_raise_def split: option.splits)

lemma channel_job_raised_Exception:
  "channel_job_raised jid (Exception e) st =
     (Inr (fst (channel_job_failed jid e st)), snd (channel_job_failed jid e st))"
  by (simp add: channel_job_raised_def)

lemma finish_channel_job_cases:
  assumes reg: "active_jobs st2 jid = Some job2"
      and calm: "calm_raise (listing_outcome (summary_outcomes env))"
  shows "\<exists>jobf tail.
           snapshots (snd (finish_channel_job jid env result p st2)) = snapshots st2 @ tail \<and>
           active_jobs (snd (finish_channel_job jid env result p st2)) jid = Some jobf \<and>
           (tail = [] \<and> jobf = job2 \<and> \<not> truthy (dict_get result ''success'' (PBool False)) \<or>
            (map job_view tail = [job_view jobf] \<or>
             map job_view tail = [(''finalizing'', 95, results job2, error job2), job_view jobf]) \<and>
            ((\<exists>e. job_view jobf = (''failed'', 0, results job2, Some e)) \<or>
             (\<exists>r. job_view jobf = (''completed'', 100, Some r, error job2))))"
proof (cases "truthy (dict_get result ''success'' (PBool False))")
  case False
  with reg show ?thesis by (simp add: finish_channel_job_def)
next
  case ok: True
  show ?thesis
  proof (cases "get_download_summary p (summary_outcomes env)")
    case (Inl x)
    from summary_raised [OF Inl calm] obtain e where x: "x = Exception e" by blast
    from channel_job_failed_registered [OF reg, of e]
    obtain jobf where
      "snd (channel_job_failed jid e st2) =
            st2\<lparr>active_jobs := (active_jobs st2)(jid \<mapsto> jobf), snapshots := snapshots st2 @ [jobf]\<rparr>"
      and "job_view jobf = (''failed'', 0, results job2, Some e)"
      by blast
    with ok Inl x show ?thesis
      by (simp add: finish_channel_job_def channel_job_raised_Exception)
  next
    case ds: (Inr download_summary)
    show ?thesis
    proof (cases "truthy (dict_get download_summary ''gcp_available'' (PBool False))")
      case False
      let ?jobf = "(JobStatus_update ''completed'' 100 (channel_final_message result) job2)
                     \<lparr>results := Some result\<rparr>"
      have "snd (finish_channel_job jid env result p st2) =
              st2\<lparr>active_jobs := (active_jobs st2)(jid \<mapsto> ?jobf),
                  snapshots := snapshots st2 @ [?jobf]\<rparr>"
        using ok ds False reg by (simp add: finish_channel_job_def on_job_def Let_def)
      moreover have "job_view ?jobf = (''completed'', 100, Some result, error job2)"
        by (simp add: job_view_def JobStatus_update_def)
      ultimately show ?thesis by simp
    next
      case gcp: True
      let ?fin = "JobStatus_update ''finalizing'' 95 ''Finalizando uploads para GCP...'' job2"
      let ?st3 = "st2\<lparr>active_jobs := (active_jobs st2)(jid \<mapsto> ?fin),
                      snapshots := snapshots st2 @ [?fin]\<rparr>"
      have st3: "on_job jid (JobStatus_update ''finalizing'' 95 ''Finalizando uploads para GCP...'') st2
                   = ?st3"
        using reg by (simp add: on_job_def)
      have reg3: "active_jobs ?st3 jid = Some ?fin" by simp
      have fin: "job_view ?fin = (''finalizing'', 95, results job2, error job2)"
        by (simp add: job_view_def JobStatus_update_def)
      show ?thesis
      proof (cases "count_uploaded (dict_get result ''downloaded_videos'' (PList []))")
        case (Inl e)
        from channel_job_failed_registered [OF reg3, of e]
        obtain jobf where
          f: "snd (channel_job_failed jid e ?st3) =
              ?st3\<lparr>active_jobs := (active_jobs ?st3)(jid \<mapsto> jobf),
                    snapshots := snapshots ?st3 @ [jobf]\<rparr>"
          and v: "job_view jobf = (''failed'', 0, results ?fin, Some e)"
          by blast
        have "snd (finish_channel_job jid env result p st2) = snd (channel_job_failed jid e ?st3)"
          using ok ds gcp Inl st3
          by (simp add: finish_channel_job_def Let_def channel_job_raised_Exception)
        with f v fin show ?thesis by (simp add: JobStatus_update_def)
      next
        case (Inr counts)
        obtain uploaded_count total_count where c: "counts = (uploaded_count, total_count)"
          by (cases counts)
        let ?result' = "dict_set result ''gcp_upload''
                          (PDict [(''success'', PBool (uploaded_count > 0)),
                                  (''uploaded_count'', PInt (int uploaded_count)),
                                  (''total_files'', PInt (int total_count)),
                                  (''failed_count'', PInt (int total_count - int uploaded_count))])"
        have ok': "truthy (dict_get ?result' ''success'' (PBool False))"
          using ok by (simp add: dict_get_dict_set)
        let ?jobf = "(JobStatus_update ''completed'' 100 (channel_final_message ?result') ?fin)
                       \<lparr>results := Some ?result'\<rparr>"
        have "snd (finish_channel_job jid env result p st2) =
                ?st3\<lparr>active_jobs := (active_jobs ?st3)(jid \<mapsto> ?jobf),
                      snapshots := snapshots ?st3 @ [?jobf]\<rparr>"
          using ok ds gcp Inr c st3 ok'
          by (simp add: finish_channel_job_def Let_def on_job_def)
        moreover have "job_view ?jobf = (''completed'', 100, Some ?result', error job2)"
          by (simp add: job_view_def JobStatus_update_def)
        ultimately show ?thesis using fin by simp
      qed
    qed
  qed
qed

lemma calls_glue:
  assumes "map call_args calls = map (\<lambda>(k, u). (u, N, k)) (enumerate 1 vs)" and "N = length vs"
  shows "list_all (\<lambda>c. 0 < fst (snd (snd c))) calls"
    and "map (\<lambda>(u, ok, n, k). F n k) calls = map (F N) [1..<Suc (length vs)]"
proof -
  have "map (\<lambda>(u, ok, n, k). F n k) calls = map (\<lambda>(u, n, k). F n k) (map call_args calls)"
    by (simp add: call_args_def case_prod_unfold comp_def)
  also have "\<dots> = map (F N \<circ> fst) (enumerate 1 vs)"
    by (simp add: assms(1) case_prod_unfold comp_def del: upt_Suc)
  also have "\<dots> = map (F N) (map fst (enumerate 1 vs))"
    by (simp only: map_map)
  also have "\<dots> = map (F N) [1..<Suc (length vs)]"
    by (simp del: upt_Suc)
  finally show "map (\<lambda>(u, ok, n, k). F n k) calls = map (F N) [1..<Suc (length vs)]" .
  have len: "length calls = length vs"
    using arg_cong [OF assms(1), of length] by simp
  have "\<And>c. c \<in> set calls \<Longrightarrow> 0 < fst (snd (snd c))"
  proof -
    fix c assume c: "c \<in> set calls"
    then have "call_args c \<in> set (map call_args calls)" by simp
    with assms have "call_args c \<in> set (map (\<lambda>(k, u). (u, N, k)) (enumerate 1 vs))" by simp
    then have n: "fst (snd (call_args c)) = N" by auto
    from c len have "vs \<noteq> []" by auto
    with n assms(2) show "0 < fst (snd (snd c))"
      by (cases c) (auto simp: call_args_def)
  qed
  then show "list_all (\<lambda>c. 0 < fst (snd (snd c))) calls" by (simp add: list_all_iff)
qed

lemma process_url_progress:
  assumes quiet: "\<forall>u ok n idx s. 0 < n \<longrightarrow> snd (cb u ok n idx s) = None"
      and step: "\<forall>u ok n k st. 0 < n \<and> active_jobs st jid \<noteq> None \<longrightarrow>
             (\<exists>msg st0. active_jobs st0 = active_jobs st \<and> snapshots st0 = snapshots st \<and>
               fst (cb u ok n k st) = on_job jid (JobStatus_update ''processing'' (P n k) msg) st0)"
      and reg: "active_jobs st jid = Some job"
      and calm: "calm_run env"
  shows "\<exists>result self' st2 ev job2.
           process_url self env the_url custom_filename max_videos (Some cb) st
             = (Inr result, self', st2, ev) \<and>
           active_jobs st2 jid = Some job2 \<and>
           results job2 = results job \<and> error job2 = error job \<and>
           status job2 = (if videos_processed env the_url max_videos = 0 then status job
                          else ''processing'') \<and>
           map job_view (snapshots st2) =
             map job_view (snapshots st)
             @ map (\<lambda>k. (''processing'', P (videos_processed env the_url max_videos) k,
                          results job, error job))
                 [1..<Suc (videos_processed env the_url max_videos)]"
proof -
  let ?N = "videos_processed env the_url max_videos"
  let ?vs = "if mkdir_outcome env = None \<and> is_channel the_url
             then enumerated_videos (channel_outcomes env) max_videos else []"
  have N: "?N = length ?vs" by (simp add: videos_processed_def)
  from process_url_state [OF quiet calm, of self the_url custom_filename max_videos st]
  obtain result self' st2 ev where
    run: "process_url self env the_url custom_filename max_videos (Some cb) st
            = (Inr result, self', st2, ev)"
    and st2: "st2 = foldl (apply_callback cb) st (callback_calls ev)"
    and calls: "map call_args (callback_calls ev) =
             (if mkdir_outcome env = None \<and> is_channel the_url then
                map (\<lambda>(k, u). (u, length (enumerated_videos (channel_outcomes env) max_videos), k))
                  (enumerate 1 (enumerated_videos (channel_outcomes env) max_videos))
              else [])"
    by blast
  have calls': "map call_args (callback_calls ev) = map (\<lambda>(k, u). (u, ?N, k)) (enumerate 1 ?vs)"
    using calls by (simp add: videos_processed_def)
  note glue = calls_glue [OF calls' N]
  from progress_fold [where cb = cb and P = P, OF step reg glue(1)]
  obtain job2 where
    j: "active_jobs (foldl (apply_callback cb) st (callback_calls ev)) jid = Some job2"
       "results job2 = results job" "error job2 = error job"
       "status job2 = (if callback_calls ev = [] then status job else ''processing'')"
    and v: "map job_view (snapshots (foldl (apply_callback cb) st (callback_calls ev))) =
             map job_view (snapshots st)
             @ map (\<lambda>(u, ok, n, k). (''processing'', P n k, results job, error job))
                 (callback_calls ev)"
    by blast
  have len: "length (callback_calls ev) = ?N"
    using arg_cong [OF calls', of length] N by simp
  then have empty: "(callback_calls ev = []) = (?N = 0)" by auto
  have "map (\<lambda>(u, ok, n, k). (''processing'', P n k, results job, error job)) (callback_calls ev)
          = map (\<lambda>k. (''processing'', P ?N k, results job, error job)) [1..<Suc (length ?vs)]"
    using glue(2) [of "\<lambda>n k. (''processing'', P n k, results job, error job)"] .
  with v N have v': "map job_view (snapshots st2) =
             map job_view (snapshots st)
             @ map (\<lambda>k. (''processing'', P ?N k, results job, error job)) [1..<Suc ?N]"
    using st2 by simp
  from run j empty v' st2 show ?thesis by auto
qed

lemma channel_callback_step1:
  assumes "0 < n" and "active_jobs st jid \<noteq> None"
  shows "\<exists>msg st0. active_jobs st0 = active_jobs st \<and> snapshots st0 = snapshots st \<and>
           fst (channel_progress_callback jid u ok n k st)
             = on_job jid (JobStatus_update ''processing'' (min 90 (ratio_times k n 90)) msg) st0"
proof -
  from assms(2) obtain job where reg: "active_jobs st jid = Some job" by auto
  from channel_callback_step [OF reg assms(1), of u ok k]
  obtain msg where "channel_progress_callback jid u ok n k st =
           (on_job jid (JobStatus_update ''processing'' (min 90 (ratio_times k n 90)) msg)
              (st\<lparr>processed_count := processed_count st + 1\<rparr>), None)"
    by blast
  then have "active_jobs (st\<lparr>processed_count := processed_count st + 1\<rparr>) = active_jobs st \<and>
             snapshots (st\<lparr>processed_count := processed_count st + 1\<rparr>) = snapshots st \<and>
             fst (channel_progress_callback jid u ok n k st)
               = on_job jid (JobStatus_update ''processing'' (min 90 (ratio_times k n 90)) msg)
                   (st\<lparr>processed_count := processed_count st + 1\<rparr>)"
    by simp
  then show ?thesis by blast
qed

lemma youtube_callback_step1:
  assumes "0 < n" and "active_jobs st jid \<noteq> None"
  shows "\<exists>msg st0. active_jobs st0 = active_jobs st \<and> snapshots st0 = snapshots st \<and>
           fst (youtube_progress_callback jid u ok n k st)
             = on_job jid (JobStatus_update ''processing''
                             (min 90 (ratio_times k n 80 + 10)) msg) st0"
proof -
  from youtube_callback_step [OF assms(1), of jid u ok k st]
  obtain msg where "youtube_progress_callback jid u ok n k st =
           (on_job jid (JobStatus_update ''processing'' (min 90 (ratio_times k n 80 + 10)) msg) st,
            None)"
    by blast
  then have "active_jobs st = active_jobs st \<and> snapshots st = snapshots st \<and>
             fst (youtube_progress_callback jid u ok n k st)
               = on_job jid (JobStatus_update ''processing''
                               (min 90 (ratio_times k n 80 + 10)) msg) st"
    by simp
  then show ?thesis by blast
qed

lemma channel_callback_steps:
  "\<forall>u ok n k st. 0 < n \<and> active_jobs st jid \<noteq> None \<longrightarrow>
     (\<exists>msg st0. active_jobs st0 = active_jobs st \<and> snapshots st0 = snapshots st \<and>
        fst (channel_progress_callback jid u ok n k st)
          = on_job jid (JobStatus_update ''processing'' (min 90 (ratio_times k n 90)) msg) st0)"
  using channel_callback_step1 by blast

lemma youtube_callback_steps:
  "\<forall>u ok n k st. 0 < n \<and> active_jobs st jid \<noteq> None \<longrightarrow>
     (\<exists>msg st0. active_jobs st0 = active_jobs st \<and> snapshots st0 = snapshots st \<and>
        fst (youtube_progress_callback jid u ok n k st)
          = on_job jid (JobStatus_update ''processing''
                          (min 90 (ratio_times k n 80 + 10)) msg) st0)"
  using youtube_callback_step1 by blast

lemma channel_runner_shape:
  assumes reg: "active_jobs st jid = Some job"
      and calm: "calm_app env"
  shows "\<exists>jobf tail N.
     N = (case pipeline_init_outcome env of Inl e \<Rightarrow> 0
          | Inr p \<Rightarrow> videos_processed (url_run env) the_url 2500) \<and>
     active_jobs (snd (process_channel_background jid the_url env st)) jid = Some jobf \<and>
     map job_view (snapshots (snd (process_channel_background jid the_url env st))) =
       map job_view (snapshots st) @ (''downloading'', 10, results job, error job) #
       map (\<lambda>k. (''processing'', min 90 (ratio_times k N 90), results job, error job)) [1..<Suc N]
       @ tail \<and>
     (tail = [] \<and> results jobf = results job \<and> error jobf = error job \<and>
        status jobf = (if N = 0 then ''downloading'' else ''processing'') \<or>
      (tail = [job_view jobf] \<or>
       tail = [(''finalizing'', 95, results job, error job), job_view jobf]) \<and>
      ((\<exists>e. job_view jobf = (''failed'', 0, results job, Some e)) \<or>
       (\<exists>r. job_view jobf = (''completed'', 100, Some r, error job))))"
proof -
  let ?J1 = "JobStatus_update ''downloading'' 10
               (if is_channel the_url then ''Iniciando processamento do canal...''
                else ''Iniciando processamento do video...'') job"
  let ?st1 = "st\<lparr>active_jobs := (active_jobs st)(jid \<mapsto> ?J1), snapshots := snapshots st @ [?J1]\<rparr>"
  have st1: "on_job jid (JobStatus_update ''downloading'' 10
               (if is_channel the_url then ''Iniciando processamento do canal...''
                else ''Iniciando processamento do video...'')) st = ?st1"
    using reg by (simp add: on_job_def)
  have J1: "job_view ?J1 = (''downloading'', 10, results job, error job)"
           "results ?J1 = results job" "error ?J1 = error job" "status ?J1 = ''downloading''"
    by (simp_all add: job_view_def JobStatus_update_def)
  have reg1: "active_jobs ?st1 jid = Some ?J1" by simp
  from calm have calmr: "calm_run (url_run env)"
    and calms: "calm_raise (listing_outcome (summary_outcomes env))"
    by (simp_all add: calm_app_def)
  show ?thesis
  proof (cases "pipeline_init_outcome env")
    case (Inl x)
    with calm obtain e where x: "x = Exception e"
      using catchable_cases by (auto simp: calm_app_def calm_outcome_def)
    from channel_job_failed_registered [OF reg1, of e]
    obtain jobf where
      f: "snd (channel_job_failed jid e ?st1) =
            ?st1\<lparr>active_jobs := (active_jobs ?st1)(jid \<mapsto> jobf),
                  snapshots := snapshots ?st1 @ [jobf]\<rparr>"
      and v: "job_view jobf = (''failed'', 0, results ?J1, Some e)"
      by blast
    have "snd (process_channel_background jid the_url env st) = snd (channel_job_failed jid e ?st1)"
      using Inl x st1
      by (simp add: process_channel_background_def Let_def channel_job_raised_Exception)
    with f v J1 Inl show ?thesis by simp
  next
    case (Inr pipeline)
    let ?N = "videos_processed (url_run env) the_url 2500"
    let ?st1' = "?st1\<lparr>processed_count := 0\<rparr>"
    have reg1': "active_jobs ?st1' jid = Some ?J1" by simp
    from process_url_progress
           [where cb = "channel_progress_callback jid" and jid = jid
              and P = "\<lambda>n k. min 90 (ratio_times k n 90)",
            OF channel_callback_quiet channel_callback_steps reg1' calmr,
            of pipeline the_url None 2500]
    obtain result self' st2 ev job2 where
      run: "process_url pipeline (url_run env) the_url None 2500
              (Some (channel_progress_callback jid)) ?st1' = (Inr result, self', st2, ev)"
      and reg2: "active_jobs st2 jid = Some job2"
      and j2: "results job2 = results ?J1" "error job2 = error ?J1"
              "status job2 = (if ?N = 0 then status ?J1 else ''processing'')"
      and v2: "map job_view (snapshots st2) =
                 map job_view (snapshots ?st1')
                 @ map (\<lambda>k. (''processing'', min 90 (ratio_times k ?N 90), results ?J1, error ?J1))
                     [1..<Suc ?N]"
      by (elim exE conjE) (rule that; assumption)
    have fin: "process_channel_background jid the_url env st
                 = finish_channel_job jid env result self' st2"
      using Inr st1 run by (simp add: process_channel_background_def Let_def)
    from finish_channel_job_cases [OF reg2 calms, of result self']
    obtain jobf tail where
      sn: "snapshots (snd (finish_channel_job jid env result self' st2)) = snapshots st2 @ tail"
      and rf: "active_jobs (snd (finish_channel_job jid env result self' st2)) jid = Some jobf"
      and c: "tail = [] \<and> jobf = job2 \<and> \<not> truthy (dict_get result ''success'' (PBool False)) \<or>
            (map job_view tail = [job_view jobf] \<or>
             map job_view tail = [(''finalizing'', 95, results job2, error job2), job_view jobf]) \<and>
            ((\<exists>e. job_view jobf = (''failed'', 0, results job2, Some e)) \<or>
             (\<exists>r. job_view jobf = (''completed'', 100, Some r, error job2)))"
      by (elim exE conjE) (rule that; assumption)
    have view: "map job_view (snapshots (snd (process_channel_background jid the_url env st))) =
       map job_view (snapshots st) @ (''downloading'', 10, results job, error job) #
       map (\<lambda>k. (''processing'', min 90 (ratio_times k ?N 90), results job, error job)) [1..<Suc ?N]
       @ map job_view tail"
      using fin sn v2 J1 by simp
    have regf: "active_jobs (snd (process_channel_background jid the_url env st)) jid = Some jobf"
      using fin rf by simp
    from c show ?thesis
    proof
      assume "tail = [] \<and> jobf = job2 \<and> \<not> truthy (dict_get result ''success'' (PBool False))"
      with view regf j2 J1 Inr show ?thesis by auto
    next
      assume "(map job_view tail = [job_view jobf] \<or>
             map job_view tail = [(''finalizing'', 95, results job2, error job2), job_view jobf]) \<and>
            ((\<exists>e. job_view jobf = (''failed'', 0, results job2, Some e)) \<or>
             (\<exists>r. job_view jobf = (''completed'', 100, Some r, error job2)))"
      with view regf j2 J1 Inr show ?thesis by auto
    qed
  qed
qed

lemma job_fail_registered:
  assumes "active_jobs st jid = Some job"
  shows "\<exists>jobf. on_job jid (JobStatus_fail e t) st =
            st\<lparr>active_jobs := (active_jobs st)(jid \<mapsto> jobf), snapshots := snapshots st @ [jobf]\<rparr> \<and>
          job_view jobf = (''failed'', 0, results job, Some e)"
proof -
  let ?jobf = "JobStatus_fail e t job"
  have "on_job jid (JobStatus_fail e t) st =
            st\<lparr>active_jobs := (active_jobs st)(jid \<mapsto> ?jobf), snapshots := snapshots st @ [?jobf]\<rparr>"
    using assms by (simp add: on_job_def)
  moreover have "job_view ?jobf = (''failed'', 0, results job, Some e)"
    by (simp add: job_view_def JobStatus_fail_def)
  ultimately show ?thesis by blast
qed

lemma youtube_job_raised_Exception:
  "youtube_job_raised jid (Exception e) t st = (None, on_job jid (JobStatus_fail e t) st)"
  by (simp add: youtube_job_raised_def)

lemma finish_youtube_job_cases:
  assumes reg: "active_jobs st2 jid = Some job2"
      and calm: "calm_raise (listing_outcome (summary_outcomes env))"
  shows "\<exists>jobf tail.
           fst (finish_youtube_job jid env result p st2) = None \<and>
           map job_view (snapshots (snd (finish_youtube_job jid env result p st2)))
             = map job_view (snapshots st2) @ (''finalizing'', 95, results job2, error job2) # tail \<and>
           active_jobs (snd (finish_youtube_job jid env result p st2)) jid = Some jobf \<and>
           ((\<exists>e. job_view jobf = (''failed'', 0, results job2, Some e) \<and> tail = [job_view jobf]) \<or>
            (\<exists>r. job_view jobf = (''completed'', 100, Some r, error job2) \<and>
                 tail = [(''completed'', 100, results job2, error job2), job_view jobf]))"
    (is ?G)
proof -
  let ?fin = "JobStatus_update ''finalizing'' 95 ''Finalizando processamento...'' job2"
  let ?st3 = "st2\<lparr>active_jobs := (active_jobs st2)(jid \<mapsto> ?fin),
                  snapshots := snapshots st2 @ [?fin]\<rparr>"
  have st3: "on_job jid (JobStatus_update ''finalizing'' 95 ''Finalizando processamento...'') st2
               = ?st3"
    using reg by (simp add: on_job_def)
  have reg3: "active_jobs ?st3 jid = Some ?fin" by simp
  have fin: "job_view ?fin = (''finalizing'', 95, results job2, error job2)"
            "results ?fin = results job2" "error ?fin = error job2"
    by (simp_all add: job_view_def JobStatus_update_def)
  have failing: "\<And>e. finish_youtube_job jid env result p st2
                        = (None, on_job jid (JobStatus_fail e (finished_at env)) ?st3) \<Longrightarrow> ?G"
  proof -
    fix e assume f: "finish_youtube_job jid env result p st2
                        = (None, on_job jid (JobStatus_fail e (finished_at env)) ?st3)"
    from job_fail_registered [OF reg3, of e "finished_at env"]
    obtain jobf where
      "on_job jid (JobStatus_fail e (finished_at env)) ?st3 =
            ?st3\<lparr>active_jobs := (active_jobs ?st3)(jid \<mapsto> jobf),
                  snapshots := snapshots ?st3 @ [jobf]\<rparr>"
      and "job_view jobf = (''failed'', 0, results ?fin, Some e)"
      by (elim exE conjE) (rule that; assumption)
    with f fin show ?G by simp
  qed
  show ?thesis
  proof (cases "get_download_summary p (summary_outcomes env)")
    case (Inl x)
    from summary_raised [OF Inl calm] obtain e where x: "x = Exception e" by blast
    with Inl st3 have "finish_youtube_job jid env result p st2
                        = (None, on_job jid (JobStatus_fail e (finished_at env)) ?st3)"
      by (simp add: finish_youtube_job_def Let_def youtube_job_raised_Exception)
    then show ?thesis by (rule failing)
  next
    case ds: (Inr download_summary)
    let ?result1 = "dict_set result ''download_summary'' (PDict download_summary)"
    show ?thesis
    proof (cases "youtube_final_message ?result1 download_summary")
      case (Inl e)
      with st3 ds have "finish_youtube_job jid env result p st2
                        = (None, on_job jid (JobStatus_fail e (finished_at env)) ?st3)"
        by (simp add: finish_youtube_job_def Let_def youtube_job_raised_Exception)
      then show ?thesis by (rule failing)
    next
      case (Inr msg)
      let ?c1 = "JobStatus_update ''completed'' 100 msg ?fin"
      let ?c2 = "JobStatus_complete ?result1 (finished_at env) ?c1"
      have "finish_youtube_job jid env result p st2 =
              (None, ?st3\<lparr>active_jobs := (active_jobs ?st3)(jid \<mapsto> ?c2),
                          snapshots := snapshots ?st3 @ [?c1, ?c2]\<rparr>)"
        using st3 ds Inr by (simp add: finish_youtube_job_def Let_def on_job_def)
      moreover have "job_view ?c1 = (''completed'', 100, results job2, error job2)"
        by (simp add: job_view_def JobStatus_update_def)
      moreover have "job_view ?c2 = (''completed'', 100, Some ?result1, error job2)"
        by (simp add: job_view_def JobStatus_update_def JobStatus_complete_def)
      ultimately show ?thesis using fin by simp
    qed
  qed
qed

lemmas runner_defs =
  process_youtube_url_background_def finish_youtube_job_def youtube_final_message_def
  process_channel_background_def finish_channel_job_def channel_job_failed_def
  channel_job_raised_def youtube_job_raised_def
  channel_final_message_def on_job_def JobStatus_update_def JobStatus_complete_def
  JobStatus_fail_def JobStatus_init_def get_download_summary_def process_url_def
  process_url_with_def process_url_try_with_def create_session_def session_dir_str_def
  single_video_counts_def unknown_failure_def is_channel_def channel_patterns_def
  lower_def lower_char_def example_app_env_def one_job_def no_options_def no_files_def
  run_ok_env_def fresh_pipeline_def no_channel_def

lemma youtube_run_views:
  "map (\<lambda>j. (status j, progress j, results j = None, error j))
     (snapshots (snd (process_youtube_url_background ''job1'' example_url no_options
                        example_app_env one_job)))
   = [(''downloading'', 10, True, None), (''finalizing'', 95, True, None),
      (''completed'', 100, True, None), (''completed'', 100, False, None)]"
  by (simp add: runner_defs example_defs video_defs channel_defs str_nat.simps digit_char_def)

lemma youtube_runner_shape:
  assumes reg: "active_jobs st jid = Some job"
      and calm: "calm_app env"
  shows "\<exists>jobf N tail.
     fst (process_youtube_url_background jid the_url opts env st) = None \<and>
     active_jobs (snd (process_youtube_url_background jid the_url opts env st)) jid = Some jobf \<and>
     map job_view (snapshots (snd (process_youtube_url_background jid the_url opts env st))) =
       map job_view (snapshots st) @ tail \<and>
     ((\<exists>e. job_view jobf = (''failed'', 0, results job, Some e) \<and>
           (tail = [job_view jobf] \<or>
            tail = [(''downloading'', 10, results job, error job), job_view jobf] \<or>
            tail = (''downloading'', 10, results job, error job) #
                   map (\<lambda>k. (''processing'', min 90 (ratio_times k N 80 + 10),
                                results job, error job)) [1..<Suc N]
                   @ [(''finalizing'', 95, results job, error job), job_view jobf])) \<or>
      (\<exists>r. job_view jobf = (''completed'', 100, Some r, error job) \<and>
           tail = (''downloading'', 10, results job, error job) #
                  map (\<lambda>k. (''processing'', min 90 (ratio_times k N 80 + 10),
                               results job, error job)) [1..<Suc N]
                  @ [(''finalizing'', 95, results job, error job),
                     (''completed'', 100, results job, error job), job_view jobf]))"
    (is ?G)
proof (cases "pipeline_init_outcome env")
  case (Inl x)
  with calm obtain e where x: "x = Exception e"
    using catchable_cases by (auto simp: calm_app_def calm_outcome_def)
  from job_fail_registered [OF reg, of e "finished_at env"]
  obtain jobf where
    "on_job jid (JobStatus_fail e (finished_at env)) st =
            st\<lparr>active_jobs := (active_jobs st)(jid \<mapsto> jobf), snapshots := snapshots st @ [jobf]\<rparr>"
    and "job_view jobf = (''failed'', 0, results job, Some e)"
    by (elim exE conjE) (rule that; assumption)
  with reg Inl x show ?thesis
    by (simp add: process_youtube_url_background_def youtube_job_raised_Exception)
next
  case (Inr pipeline)
  let ?J1 = "JobStatus_update ''downloading'' 10 ''Iniciando download...'' job"
  let ?st1 = "st\<lparr>active_jobs := (active_jobs st)(jid \<mapsto> ?J1), snapshots := snapshots st @ [?J1]\<rparr>"
  have st1: "on_job jid (JobStatus_update ''downloading'' 10 ''Iniciando download...'') st = ?st1"
    using reg by (simp add: on_job_def)
  have J1: "job_view ?J1 = (''downloading'', 10, results job, error job)"
           "results ?J1 = results job" "error ?J1 = error job"
    by (simp_all add: job_view_def JobStatus_update_def)
  have reg1: "active_jobs ?st1 jid = Some ?J1" by simp
  let ?name = "opt_or (opt_session_name opts) (''web_session_'' @ web_session_timestamp env)"
  obtain pipeline1 where
    cs: "create_session pipeline (Some ?name) (web_session_timestamp env) (web_mkdir_outcome env)
           = (pipeline1, web_mkdir_outcome env)"
    by (simp add: create_session_def Let_def)
  from calm have calmr: "calm_run (url_run env)"
    and calms: "calm_raise (listing_outcome (summary_outcomes env))"
    by (simp_all add: calm_app_def)
  show ?thesis
  proof (cases "web_mkdir_outcome env")
    case (Some x)
    with calm obtain e where x: "x = Exception e"
      using catchable_cases by (auto simp: calm_app_def calm_raise_def)
    from job_fail_registered [OF reg1, of e "finished_at env"]
    obtain jobf where
      "on_job jid (JobStatus_fail e (finished_at env)) ?st1 =
            ?st1\<lparr>active_jobs := (active_jobs ?st1)(jid \<mapsto> jobf),
                  snapshots := snapshots ?st1 @ [jobf]\<rparr>"
      and "job_view jobf = (''failed'', 0, results ?J1, Some e)"
      by (elim exE conjE) (rule that; assumption)
    with reg Inr st1 cs Some x J1 show ?thesis
      by (simp add: process_youtube_url_background_def Let_def youtube_job_raised_Exception)
  next
    case None
    let ?max = "case opt_max_videos opts of None \<Rightarrow> 2500 | Some n \<Rightarrow> n"
    let ?N = "videos_processed (url_run env) the_url ?max"
    from process_url_progress
           [where cb = "youtube_progress_callback jid" and jid = jid
              and P = "\<lambda>n k. min 90 (ratio_times k n 80 + 10)",
            OF youtube_callback_quiet youtube_callback_steps reg1 calmr,
            of pipeline1 the_url "opt_filename opts" ?max]
    obtain result self' st2 ev job2 where
      run: "process_url pipeline1 (url_run env) the_url (opt_filename opts) ?max
              (Some (youtube_progress_callback jid)) ?st1 = (Inr result, self', st2, ev)"
      and reg2: "active_jobs st2 jid = Some job2"
      and j2: "results job2 = results ?J1" "error job2 = error ?J1"
      and v2: "map job_view (snapshots st2) =
                 map job_view (snapshots ?st1)
                 @ map (\<lambda>k. (''processing'', min 90 (ratio_times k ?N 80 + 10),
                              results ?J1, error ?J1)) [1..<Suc ?N]"
      by (elim exE conjE) (rule that; assumption)
    have fin: "process_youtube_url_background jid the_url opts env st
                 = finish_youtube_job jid env result self' st2"
      using reg Inr st1 cs None run
      by (simp add: process_youtube_url_background_def Let_def)
    from finish_youtube_job_cases [OF reg2 calms, of result self']
    obtain jobf tail where
      fn: "fst (finish_youtube_job jid env result self' st2) = None"
      and sn: "map job_view (snapshots (snd (finish_youtube_job jid env result self' st2)))
             = map job_view (snapshots st2) @ (''finalizing'', 95, results job2, error job2) # tail"
      and rf: "active_jobs (snd (finish_youtube_job jid env result self' st2)) jid = Some jobf"
      and c: "(\<exists>e. job_view jobf = (''failed'', 0, results job2, Some e) \<and> tail = [job_view jobf]) \<or>
            (\<exists>r. job_view jobf = (''completed'', 100, Some r, error job2) \<and>
                 tail = [(''completed'', 100, results job2, error job2), job_view jobf])"
      by (elim exE conjE) (rule that; assumption)
    have view: "map job_view (snapshots (snd (process_youtube_url_background jid the_url opts env st)))
        = map job_view (snapshots st) @ (''downloading'', 10, results job, error job) #
          map (\<lambda>k. (''processing'', min 90 (ratio_times k ?N 80 + 10), results job, error job))
            [1..<Suc ?N]
          @ (''finalizing'', 95, results job, error job) # tail"
      using fin sn v2 J1 j2 by simp
    from c show ?thesis
    proof
      assume "\<exists>e. job_view jobf = (''failed'', 0, results job2, Some e) \<and> tail = [job_view jobf]"
      with view fin fn rf j2 J1 show ?thesis by auto
    next
      assume "\<exists>r. job_view jobf = (''completed'', 100, Some r, error job2) \<and>
                 tail = [(''completed'', 100, results job2, error job2), job_view jobf]"
      with view fin fn rf j2 J1 show ?thesis by auto
    qed
  qed
qed

subsection \<open>A channel run with \<open>n\<close> videos\<close>

lemmas float_defs = ratio_times_def py_int_of_float_def py_float_mul_def py_truediv_def
  scale2_def round_half_even_def Let_def

lemma seen_job_view: "seen st = map (\<lambda>v. (fst v, fst (snd v))) (map job_view (snapshots st))"
  by (simp add: seen_def job_view_def comp_def)

lemma is_channel_example: "is_channel channel_url_example"
  by (simp add: is_channel_def channel_patterns_def channel_url_example_def lower_def
        lower_char_def)

lemma videos_processed_channel_of:
  "n \<le> 2500 \<Longrightarrow> videos_processed (url_run (channel_app_env n)) channel_url_example 2500 = n"
  using is_channel_example
  by (simp add: videos_processed_def channel_app_env_def run_ok_env_def enumerated_videos_def
        channel_of_def limit_videos_def)

lemmas calm_defs =
  calm_app_def calm_run_def calm_channel_def calm_video_def calm_upload_def calm_outcome_def
  calm_raise_def

lemma calm_channel_app_env: "calm_app (channel_app_env n)"
  by (simp add: calm_defs channel_app_env_def example_app_env_def run_ok_env_def channel_of_def
        video_ok_def upload_accepts_def no_files_def no_channel_def)

lemma calm_example_app_env: "calm_app example_app_env"
  by (simp add: calm_defs example_app_env_def run_ok_env_def video_ok_def upload_accepts_def
        no_files_def no_channel_def)

lemma channel_run_first_progress:
  assumes "0 < n" and "n \<le> 2500"
  shows "take 2 (seen (snd (process_channel_background ''job1'' channel_url_example
                              (channel_app_env n) channel_job)))
           = [(''downloading'', 10), (''processing'', min 90 (ratio_times 1 n 90))]"
proof -
  have reg: "active_jobs channel_job ''job1'' = Some (JobStatus_init ''job1'' channel_url_example 0)"
    by (simp add: channel_job_def)
  have init: "pipeline_init_outcome (channel_app_env n) = Inr fresh_pipeline"
    by (simp add: channel_app_env_def example_app_env_def)
  from channel_runner_shape
         [OF reg calm_channel_app_env [of n], where the_url = channel_url_example]
  obtain tail N where
    N: "N = (case pipeline_init_outcome (channel_app_env n) of Inl e \<Rightarrow> 0
          | Inr p \<Rightarrow> videos_processed (url_run (channel_app_env n)) channel_url_example 2500)"
    and v: "map job_view (snapshots (snd (process_channel_background ''job1'' channel_url_example
                                            (channel_app_env n) channel_job))) =
       map job_view (snapshots channel_job) @
       (''downloading'', 10, results (JobStatus_init ''job1'' channel_url_example 0),
          error (JobStatus_init ''job1'' channel_url_example 0)) #
       map (\<lambda>k. (''processing'', min 90 (ratio_times k N 90),
                    results (JobStatus_init ''job1'' channel_url_example 0),
                    error (JobStatus_init ''job1'' channel_url_example 0))) [1..<Suc N]
       @ tail"
    by (elim exE conjE) (rule that; assumption)
  have "N = n" using N init videos_processed_channel_of [OF assms(2)] by simp
  moreover have "[1..<Suc n] = 1 # [Suc 1..<Suc n]"
    using assms(1) by (intro upt_conv_Cons) simp
  moreover have "snapshots channel_job = []" by (simp add: channel_job_def)
  ultimately show ?thesis using v by (simp add: seen_job_view)
qed

text \<open>
  C4 says that the progress of a job record never decreases while the record is in a
  non-terminal state.  For a channel of ten videos the record of
  \<open>process_channel_background\<close> is first set to \<open>downloading\<close> with progress 10 and then, by
  the callback after the first video, to \<open>processing\<close> with progress
  \<open>min(90, int((1 / 10) * 90)) = 9\<close>: the progress decreases between two non-terminal states.
\<close>

theorem channel_progress_drops_after_first_video:
  "take 2 (seen (snd (process_channel_background ''job1'' channel_url_example
                        (channel_app_env 10) channel_job)))
     = [(''downloading'', 10), (''processing'', 9)]"
proof -
  have "ratio_times 1 10 90 = 9" by (simp add: float_defs bit_length.simps)
  with channel_run_first_progress [of 10] show ?thesis by simp
qed

text \<open>
  C5 says that progress is set to 0 if and only if the record transitions to \<open>failed\<close>.
  For a channel of 91 videos the callback of \<open>process_channel_background\<close> after the first
  video sets the record to \<open>processing\<close> with progress \<open>min(90, int((1 / 91) * 90)) = 0\<close>:
  progress is set to 0 on a transition to a state that is not \<open>failed\<close>.
\<close>

theorem channel_progress_zero_while_processing:
  "take 2 (seen (snd (process_channel_background ''job1'' channel_url_example
                        (channel_app_env 91) channel_job)))
     = [(''downloading'', 10), (''processing'', 0)]"
proof -
  have "ratio_times 1 91 90 = 0" by (simp add: float_defs bit_length.simps)
  with channel_run_first_progress [of 91] show ?thesis by simp
qed

subsection \<open>A channel run that finds no videos\<close>

text \<open>
  C2 says that the job record of a channel URL that enumerates to zero videos reaches the
  terminal state \<open>failed\<close>.  In \<open>process_channel_background\<close> the pipeline returns
  \<open>success = False\<close>, \<open>error = 'No videos found in channel'\<close> and \<open>downloaded_count = 0\<close>,
  but the only record update of the run is the initial one: the record is left in the
  state \<open>downloading\<close> with progress 10 and no error.
\<close>

theorem channel_job_stays_downloading_when_no_videos_found:
  "map job_summary
     (snapshots (snd (process_channel_background ''job1'' channel_url_example
                        example_app_env channel_job)))
     = [(''downloading'', 10, True, None)] \<and>
   map_option job_summary
     (active_jobs (snd (process_channel_background ''job1'' channel_url_example
                          example_app_env channel_job)) ''job1'')
     = Some (''downloading'', 10, True, None) \<and>
   (case fst (process_channel_background ''job1'' channel_url_example
                example_app_env channel_job) of
      Inl x \<Rightarrow> None
    | Inr d \<Rightarrow>
        Some (map (\<lambda>k. dict_get d k PNone)
                [''success'', ''error'', ''downloaded_count'', ''type'']))
     = Some [PBool False, PStr ''No videos found in channel'', PInt 0, PStr ''channel'']"
  by code_simp

subsection \<open>Terminal records and their payloads\<close>

text \<open>
  C6 says that a record in a terminal state has exactly one of \<open>results\<close> and \<open>error\<close>
  populated.  In \<open>process_youtube_url_background\<close> the record is set to \<open>completed\<close> by
  \<open>job.update\<close> before \<open>job.complete\<close> stores the results: of the four successive states
  of the record in a run on one video, the third is terminal and has neither payload.
\<close>

theorem completed_record_without_results_is_readable:
  "map (\<lambda>j. (status j, terminal j, exactly_one_payload j))
     (snapshots (snd (process_youtube_url_background ''job1'' example_url no_options
                        example_app_env one_job)))
     = [(''downloading'', False, False), (''finalizing'', False, False),
        (''completed'', True, False), (''completed'', True, True)]"
proof -
  let ?snaps = "snapshots (snd (process_youtube_url_background ''job1'' example_url no_options
                               example_app_env one_job))"
  have "map (\<lambda>j. (status j, terminal j, exactly_one_payload j)) ?snaps
          = map (\<lambda>v. case v of (s, p, r, e) \<Rightarrow>
                   (s, s = ''completed'' \<or> s = ''failed'', r \<noteq> (e = None)))
              (map (\<lambda>j. (status j, progress j, results j = None, error j)) ?snaps)"
    by (simp add: terminal_def exactly_one_payload_def)
  also have "\<dots> = [(''downloading'', False, False), (''finalizing'', False, False),
                    (''completed'', True, False), (''completed'', True, True)]"
    unfolding youtube_run_views by simp
  finally show ?thesis .
qed

text \<open>
  The record that either runner leaves behind does satisfy the invariant, when the record
  had no payload at the start and the thread is not ended by an exception that is not an
  \<open>Exception\<close>: \<open>completed\<close> comes with progress 100 and results only, \<open>failed\<close> with
  progress 0 and an error only.
\<close>

lemma runners_leave_exactly_one_payload:
  assumes reg: "active_jobs st jid = Some job"
      and fresh: "results job = None" "error job = None"
      and calm: "calm_app env"
  shows "(\<exists>jobf. active_jobs (snd (process_channel_background jid the_url env st)) jid = Some jobf \<and>
            (terminal jobf \<longrightarrow> exactly_one_payload jobf) \<and>
            (status jobf = ''completed'' \<longrightarrow>
               progress jobf = 100 \<and> results jobf \<noteq> None \<and> error jobf = None) \<and>
            (status jobf = ''failed'' \<longrightarrow>
               progress jobf = 0 \<and> results jobf = None \<and> error jobf \<noteq> None)) \<and>
         (\<exists>jobf. active_jobs (snd (process_youtube_url_background jid the_url opts env st)) jid
                   = Some jobf \<and>
            terminal jobf \<and> exactly_one_payload jobf \<and>
            (status jobf = ''completed'' \<longrightarrow>
               progress jobf = 100 \<and> results jobf \<noteq> None \<and> error jobf = None) \<and>
            (status jobf = ''failed'' \<longrightarrow>
               progress jobf = 0 \<and> results jobf = None \<and> error jobf \<noteq> None))"
proof
  from channel_runner_shape [OF reg calm, where the_url = the_url]
  obtain jobf tail and N :: nat where
    r: "active_jobs (snd (process_channel_background jid the_url env st)) jid = Some jobf"
    and c: "tail = [] \<and> results jobf = results job \<and> error jobf = error job \<and>
              status jobf = (if N = 0 then ''downloading'' else ''processing'') \<or>
            (tail = [job_view jobf] \<or>
             tail = [(''finalizing'', 95, results job, error job), job_view jobf]) \<and>
            ((\<exists>e. job_view jobf = (''failed'', 0, results job, Some e)) \<or>
             (\<exists>r. job_view jobf = (''completed'', 100, Some r, error job)))"
    by (elim exE conjE) (rule that; assumption)
  have "(terminal jobf \<longrightarrow> exactly_one_payload jobf) \<and>
        (status jobf = ''completed'' \<longrightarrow>
           progress jobf = 100 \<and> results jobf \<noteq> None \<and> error jobf = None) \<and>
        (status jobf = ''failed'' \<longrightarrow>
           progress jobf = 0 \<and> results jobf = None \<and> error jobf \<noteq> None)"
    using c fresh
    by (auto simp: terminal_def exactly_one_payload_def job_view_def split: if_splits)
  with r show "\<exists>jobf. active_jobs (snd (process_channel_background jid the_url env st)) jid
                   = Some jobf \<and>
            (terminal jobf \<longrightarrow> exactly_one_payload jobf) \<and>
            (status jobf = ''completed'' \<longrightarrow>
               progress jobf = 100 \<and> results jobf \<noteq> None \<and> error jobf = None) \<and>
            (status jobf = ''failed'' \<longrightarrow>
               progress jobf = 0 \<and> results jobf = None \<and> error jobf \<noteq> None)"
    by blast
next
  from youtube_runner_shape [OF reg calm, where the_url = the_url and opts = opts]
  obtain jobf where
    r: "active_jobs (snd (process_youtube_url_background jid the_url opts env st)) jid = Some jobf"
    and c: "(\<exists>e. job_view jobf = (''failed'', 0, results job, Some e)) \<or>
            (\<exists>r. job_view jobf = (''completed'', 100, Some r, error job))"
    by (elim exE conjE) (rule that, assumption, blast)
  have "terminal jobf \<and> exactly_one_payload jobf \<and>
        (status jobf = ''completed'' \<longrightarrow>
           progress jobf = 100 \<and> results jobf \<noteq> None \<and> error jobf = None) \<and>
        (status jobf = ''failed'' \<longrightarrow>
           progress jobf = 0 \<and> results jobf = None \<and> error jobf \<noteq> None)"
    using c fresh
    by (auto simp: terminal_def exactly_one_payload_def job_view_def split: if_splits)
  with r show "\<exists>jobf. active_jobs (snd (process_youtube_url_background jid the_url opts env st)) jid
                   = Some jobf \<and>
            terminal jobf \<and> exactly_one_payload jobf \<and>
            (status jobf = ''completed'' \<longrightarrow>
               progress jobf = 100 \<and> results jobf \<noteq> None \<and> error jobf = None) \<and>
            (status jobf = ''failed'' \<longrightarrow>
               progress jobf = 0 \<and> results jobf = None \<and> error jobf \<noteq> None)"
    by blast
qed

subsection \<open>Updates and the registry lock\<close>

lemma update_actions_sequential:
  "fold perform (update_actions st pr msg) job = JobStatus_update st pr msg job"
  by (simp add: update_actions_def JobStatus_update_def)

lemma locked_update_is_atomic:
  "poller_views (with_job_lock (update_actions st pr msg)) False job
     = [JobStatus_update st pr msg job]"
  by (simp add: with_job_lock_def update_actions_def JobStatus_update_def)

text \<open>
  C7 says that every transition sets state, progress and message as one update under the
  registry lock, so that a poller never observes a partial update.  The first update of
  \<open>process_youtube_url_background\<close> is made without the lock: a poller can read the new
  state \<open>downloading\<close> together with the old progress 0 and the old message.  The same
  update in \<open>process_channel_background\<close> is made under the lock and is read whole.
\<close>

theorem unlocked_update_is_read_half_done:
  "map status_reply
     (poller_views youtube_first_update False (JobStatus_init ''job1'' example_url 0))
     = [(''downloading'', 0, ''Iniciando processamento...''),
        (''downloading'', 10, ''Iniciando processamento...''),
        (''downloading'', 10, ''Iniciando download...'')] \<and>
   map status_reply
     (poller_views channel_first_update False (JobStatus_init ''job1'' example_url 0))
     = [(''downloading'', 10, ''Iniciando processamento do canal...'')]"
  by (simp add: youtube_first_update_def channel_first_update_def with_job_lock_def
        update_actions_def status_reply_def JobStatus_init_def)

section \<open>process\_url and the exceptions it does not catch\<close>
















end
